theory Spec2Isabelle
  imports Main "HOL-Library.Log_Nat"
begin

section \<open>Strings, patterns and paths\<close>

text \<open>
  Go strings and byte slices are sequences of bytes; both are modelled as \<open>string\<close>
  (a list of 8-bit characters), so \<open>length\<close> is Go's \<open>len\<close>.
\<close>

type_synonym bytes = string

text \<open>\<open>strings.Contains(s, sub)\<close>.\<close>

fun Contains :: "string \<Rightarrow> string \<Rightarrow> bool" where
  "Contains [] sub = (sub = [])"
| "Contains (c # s) sub = (take (length sub) (c # s) = sub \<or> Contains s sub)"

text \<open>\<open>strings.HasSuffix(s, suffix)\<close>.\<close>

definition HasSuffix :: "string \<Rightarrow> string \<Rightarrow> bool" where
  "HasSuffix s suffix =
     (length suffix \<le> length s \<and> drop (length s - length suffix) s = suffix)"

text \<open>
  \<open>strings.ToLower\<close>. The letters \<open>A..Z\<close> are lowered. Of the letters outside ASCII,
  exactly two have an ASCII letter as their lower-case form, and they are lowered too:
  U+0130 (the bytes \<open>C4 B0\<close>) to \<open>i\<close> and U+212A (the bytes \<open>E2 84 AA\<close>) to \<open>k\<close>;
  wherever these bytes stand in a string, the UTF-8 decoder reads them as that letter.
  Every other byte above \<open>7F\<close> is left as it is, where Go writes the lower-case form
  of the letter, which is again outside ASCII (or U+FFFD for a byte that is not
  UTF-8). So \<open>ToLower\<close> is Go's function on every string without such a byte, and on
  every string it agrees with Go on whether the result is a given ASCII string, which
  is all this package asks of it.
\<close>

definition lower_char :: "char \<Rightarrow> char" where
  "lower_char c =
     (let n = of_char c :: nat in if 65 \<le> n \<and> n \<le> 90 then char_of (n + 32) else c)"

fun ToLower :: "string \<Rightarrow> string" where
  "ToLower [] = []"
| "ToLower (c # s) =
     (if c = CHR 0xC4 \<and> take 1 s = [CHR 0xB0] then CHR ''i'' # ToLower (drop 1 s)
      else if c = CHR 0xE2 \<and> take 2 s = [CHR 0x84, CHR 0xAA] then CHR ''k'' # ToLower (drop 2 s)
      else lower_char c # ToLower s)"

text \<open>\<open>strings.LastIndex(s, ".")\<close> for a one-byte needle; \<open>-1\<close> when absent.\<close>

fun LastIndexByte :: "string \<Rightarrow> char \<Rightarrow> int" where
  "LastIndexByte [] c = -1"
| "LastIndexByte (x # xs) c =
     (let r = LastIndexByte xs c in
      if r \<ge> 0 then r + 1 else if x = c then 0 else -1)"

text \<open>\<open>strings.Split(s, ",")\<close> for a one-byte separator.\<close>

fun SplitByte :: "string \<Rightarrow> char \<Rightarrow> string list" where
  "SplitByte [] sep = [[]]"
| "SplitByte (x # xs) sep =
     (if x = sep then [] # SplitByte xs sep
      else (case SplitByte xs sep of
              [] \<Rightarrow> [[x]]
            | w # ws \<Rightarrow> (x # w) # ws))"

text \<open>
  \<open>dangerousCommandChars = regexp.MustCompile(`[;&|` + "`" + `'"(){}[\]$<>]`)\<close>:
  a single character class, so \<open>MatchString\<close> holds exactly when some byte of the
  string is one of the fifteen listed characters.
\<close>

definition commandMetaChars :: "char list" where
  "commandMetaChars =
     [CHR '';'', CHR ''&'', CHR ''|'', CHR 0x60, CHR 0x27, CHR 0x22,
      CHR ''('', CHR '')'', CHR ''{'', CHR ''}'', CHR ''['', CHR '']'',
      CHR ''$'', CHR ''<'', CHR ''>'']"

definition dangerousCommandChars :: "string \<Rightarrow> bool" where
  "dangerousCommandChars s = (\<exists>c \<in> set s. c \<in> set commandMetaChars)"

text \<open>
  \<open>dangerousPathChars = regexp.MustCompile(`\.\.[/\\]`)\<close>: two dots followed by a
  slash or a backslash.
\<close>

definition dangerousPathChars :: "string \<Rightarrow> bool" where
  "dangerousPathChars s = (Contains s ''../'' \<or> Contains s [CHR ''.'', CHR ''.'', CHR 0x5C])"

subsection \<open>Package \<open>path/filepath\<close> on a system whose separator is the slash\<close>

text \<open>
  \<open>filepath.Clean\<close>: the path is read element by element. Empty elements and \<open>.\<close>
  are dropped; \<open>..\<close> removes the last kept element when there is one that is not
  itself \<open>..\<close>, is dropped at the root, and is kept otherwise. \<open>clean_elems\<close> holds
  the kept elements in reverse order.
\<close>

fun clean_elems :: "bool \<Rightarrow> string list \<Rightarrow> string list \<Rightarrow> string list" where
  "clean_elems rooted acc [] = acc"
| "clean_elems rooted acc (e # es) =
     (if e = [] \<or> e = ''.'' then clean_elems rooted acc es
      else if e = ''..'' then
        (case acc of
           [] \<Rightarrow> if rooted then clean_elems rooted [] es
                 else clean_elems rooted [''..''] es
         | a # as \<Rightarrow> if a = ''..'' then clean_elems rooted (''..'' # a # as) es
                     else clean_elems rooted as es)
      else clean_elems rooted (e # acc) es)"

fun join_slash :: "string list \<Rightarrow> string" where
  "join_slash [] = []"
| "join_slash [e] = e"
| "join_slash (e # f # es) = e @ ''/'' @ join_slash (f # es)"

definition Clean :: "string \<Rightarrow> string" where
  "Clean path =
     (if path = [] then ''.''
      else
        let rooted = (hd path = CHR ''/'');
            out = join_slash (rev (clean_elems rooted [] (SplitByte path CHR ''/'')))
        in if rooted then CHR ''/'' # out
           else if out = [] then ''.'' else out)"

text \<open>\<open>filepath.IsAbs\<close>.\<close>

definition IsAbs :: "string \<Rightarrow> bool" where
  "IsAbs path = (case path of [] \<Rightarrow> False | c # _ \<Rightarrow> c = CHR ''/'')"

text \<open>
  \<open>filepath.Ext\<close>: the suffix starting at the last dot of the last path element,
  empty when that element has no dot. \<open>ext_scan\<close> walks the reversed path.
\<close>

fun ext_scan :: "string \<Rightarrow> string \<Rightarrow> string" where
  "ext_scan [] acc = []"
| "ext_scan (c # cs) acc =
     (if c = CHR ''/'' then []
      else if c = CHR ''.'' then c # acc
      else ext_scan cs (c # acc))"

definition Ext :: "string \<Rightarrow> string" where
  "Ext path = ext_scan (rev path) []"

text \<open>\<open>strconv.Itoa\<close>.\<close>

fun digits :: "nat \<Rightarrow> string" where
  "digits n =
     (if n < 10 then [char_of (48 + n)]
      else digits (n div 10) @ [char_of (48 + n mod 10)])"

declare digits.simps [simp del]

definition Itoa :: "int \<Rightarrow> string" where
  "Itoa i = (if i < 0 then CHR ''-'' # digits (nat (- i)) else digits (nat i))"

section \<open>Errors\<close>

text \<open>
  An error built by \<open>fmt.Errorf\<close> keeps its format string and its operands; with the
  verb \<open>%w\<close> it also keeps the error it wraps. \<open>SecurityError\<close> and
  \<open>InputValidationError\<close> are the two error structs of the package. \<open>OsError\<close>
  carries an error of the packages \<open>os\<close> and \<open>io\<close>, \<open>ExecError\<close> one of \<open>os/exec\<close>,
  \<open>CodecError\<close> one of an image codec, and \<open>Panic\<close> stands for a run-time panic.
\<close>

datatype operand = S string | I int

datatype os_error = ErrNotExist | ErrExist | ErrPermission | ErrPatternHasSeparator | EOF

datatype error =
    Errorf string "operand list"
  | Wrapf string "operand list" error
  | SecurityError string string "error option"
  | InputValidationError string string string
  | OsError os_error
  | ExecError string
  | CodecError string
  | Panic string

text \<open>\<open>NewSecurityError\<close> only fills the three fields.\<close>

definition NewSecurityError :: "string \<Rightarrow> string \<Rightarrow> error option \<Rightarrow> error" where
  "NewSecurityError errorType message cause = SecurityError errorType message cause"

text \<open>The chain that \<open>errors.Unwrap\<close> walks, outermost error first.\<close>

fun chain :: "error \<Rightarrow> error list" where
  "chain (Wrapf f ops e) = Wrapf f ops e # chain e"
| "chain (SecurityError t m (Some e)) = SecurityError t m (Some e) # chain e"
| "chain e = [e]"

section \<open>The outside world\<close>

text \<open>
  A file has a content and permission bits. The state that the package reads and
  changes is the file system, as a map from path names to files, together with the
  list of commands handed to \<open>cmd.Run\<close> so far (name, arguments, working directory),
  latest first. Path names are compared as they are written.
\<close>

record fs_file =
  content :: bytes
  perm :: nat

record world =
  files :: "string \<rightharpoonup> fs_file"
  spawned :: "(string \<times> string list \<times> string) list"

datatype run_outcome = Exited_Ok | Exited_Failure | Deadline_Exceeded

text \<open>
  What the package cannot decide by itself is a parameter: the temporary directory of
  the operating system, which executables \<open>exec.LookPath\<close> finds, the random part of
  a temporary file's name at each attempt, whether a directory accepts a new file, the
  file mode creation mask of the process, whether \<open>Chmod\<close> and \<open>Remove\<close> are refused,
  and what a started process does to the file system and how it ends within the time
  limit (in nanoseconds).
\<close>

record os_env =
  os_TempDir :: string
  LookPath :: "string \<Rightarrow> bool"
  temp_random :: "nat \<Rightarrow> string"
  dir_writable :: "string \<Rightarrow> bool"
  umask :: nat
  chmod_refused :: "string \<Rightarrow> bool"
  remove_refused :: "string \<Rightarrow> bool"
  process :: "string \<Rightarrow> string list \<Rightarrow> string \<Rightarrow> int \<Rightarrow> (string \<rightharpoonup> fs_file)
                \<Rightarrow> run_outcome \<times> (string \<rightharpoonup> fs_file)"

section \<open>Security configuration and validation\<close>

text \<open>A \<open>time.Duration\<close> is a number of nanoseconds.\<close>

record SecurityConfig =
  AllowedCommands :: "string \<rightharpoonup> bool"
  AllowedTempDir :: string
  MaxFileSize :: int
  CommandTimeout :: int
  EnableInputValidation :: bool

definition DefaultCommandTimeout :: int where
  "DefaultCommandTimeout = 30 * 1000000000"

definition MaxFileSize_const :: int where
  "MaxFileSize_const = 100 * 1024 * 1024"

definition AllowedImageExts :: string where
  "AllowedImageExts = ''.png,.jpg,.jpeg,.webp,.tiff,.bmp,.arw,.srf,.sr2''"

definition DefaultSecurityConfig :: "os_env \<Rightarrow> SecurityConfig" where
  "DefaultSecurityConfig env =
     \<lparr> AllowedCommands = [''darktable-cli'' \<mapsto> True, ''echo'' \<mapsto> True],
       AllowedTempDir = os_TempDir env,
       MaxFileSize = MaxFileSize_const,
       CommandTimeout = DefaultCommandTimeout,
       EnableInputValidation = True \<rparr>"

text \<open>Reading a \<open>map[string]bool\<close>: a missing key reads as \<open>false\<close>.\<close>

definition allowed :: "(string \<rightharpoonup> bool) \<Rightarrow> string \<Rightarrow> bool" where
  "allowed m k = (case m k of None \<Rightarrow> False | Some b \<Rightarrow> b)"

definition validateCommandName :: "string \<Rightarrow> SecurityConfig \<Rightarrow> error option" where
  "validateCommandName cmdName config =
     (if \<not> allowed (AllowedCommands config) cmdName
        then Some (Errorf ''command not allowed: %s'' [S cmdName])
      else if dangerousCommandChars cmdName
        then Some (Errorf ''command contains dangerous characters: %s'' [S cmdName])
      else None)"

fun validateCommandArgs :: "string list \<Rightarrow> error option" where
  "validateCommandArgs [] = None"
| "validateCommandArgs (arg # args) =
     (if dangerousCommandChars arg
        then Some (Errorf ''argument contains dangerous characters: %s'' [S arg])
      else if dangerousPathChars arg
        then Some (Errorf ''argument contains path traversal sequences: %s'' [S arg])
      else if length arg > 4096
        then Some (Errorf ''argument too long: %s'' [S arg])
      else validateCommandArgs args)"

text \<open>
  \<open>safeExecuteCommand\<close>, called with the background context as its only caller
  does. \<open>cmd.Run\<close> is the one place where a command is executed: it is recorded in
  \<open>spawned\<close> and its effect on the files is the environment's.
\<close>

definition safeExecuteCommand ::
  "os_env \<Rightarrow> string \<Rightarrow> string list \<Rightarrow> SecurityConfig \<Rightarrow> world \<Rightarrow> error option \<times> world" where
  "safeExecuteCommand env cmdName args config w =
     (case validateCommandName cmdName config of
        Some err \<Rightarrow> (Some (Wrapf ''invalid command: %w'' [] err), w)
      | None \<Rightarrow>
     (case validateCommandArgs args of
        Some err \<Rightarrow> (Some (Wrapf ''invalid arguments: %w'' [] err), w)
      | None \<Rightarrow>
        let dir = AllowedTempDir config;
            (outcome, fs) = process env cmdName args dir (CommandTimeout config) (files w);
            w' = w\<lparr> files := fs, spawned := (cmdName, args, dir) # spawned w \<rparr>
        in (case outcome of
              Exited_Ok \<Rightarrow> (None, w')
            | Deadline_Exceeded \<Rightarrow>
                (Some (Wrapf ''command timed out after %v: %w'' [I (CommandTimeout config)]
                         (ExecError ''signal: killed'')), w')
            | Exited_Failure \<Rightarrow>
                (Some (Wrapf ''command execution failed: %w'' [] (ExecError ''exit status'')), w'))))"

definition validateFilePath :: "string \<Rightarrow> SecurityConfig \<Rightarrow> error + string" where
  "validateFilePath filePath config =
     (let cleanPath = Clean filePath in
      if Contains cleanPath ''..''
        then Inl (Errorf ''path traversal detected: %s'' [S filePath])
      else if IsAbs cleanPath
        then Inl (Errorf ''absolute paths not allowed: %s'' [S filePath])
      else if dangerousPathChars cleanPath
        then Inl (Errorf ''path contains dangerous characters: %s'' [S filePath])
      else if length cleanPath > 260
        then Inl (Errorf ''path too long: %s'' [S filePath])
      else Inr cleanPath)"

fun ext_in :: "string \<Rightarrow> string list \<Rightarrow> bool" where
  "ext_in ext [] = False"
| "ext_in ext (allowedExt # rest) = (if ext = allowedExt then True else ext_in ext rest)"

definition validateFileExtension :: "string \<Rightarrow> error option" where
  "validateFileExtension filePath =
     (let ext = ToLower (Ext filePath);
          allowedExts = SplitByte AllowedImageExts CHR '',''
      in if ext_in ext allowedExts then None
         else Some (Errorf ''file extension not allowed: %s'' [S ext]))"

text \<open>\<open>os.Stat\<close>: here only the size of the file is read from the result.\<close>

definition Stat :: "world \<Rightarrow> string \<Rightarrow> os_error + int" where
  "Stat w path =
     (case files w path of
        None \<Rightarrow> Inl ErrNotExist
      | Some f \<Rightarrow> Inr (int (length (content f))))"

definition validateFileSize :: "world \<Rightarrow> string \<Rightarrow> int \<Rightarrow> error option" where
  "validateFileSize w filePath maxSize =
     (case Stat w filePath of
        Inl e \<Rightarrow> Some (Wrapf ''failed to get file info: %w'' [] (OsError e))
      | Inr fileSize \<Rightarrow>
          if fileSize > maxSize
            then Some (Errorf ''file too large: %d bytes (max: %d)'' [I fileSize, I maxSize])
          else None)"

section \<open>Temporary files\<close>

text \<open>\<open>os.Remove\<close> and \<open>os.Open\<close> (followed by reading the whole file).\<close>

definition Remove :: "os_env \<Rightarrow> string \<Rightarrow> world \<Rightarrow> os_error option \<times> world" where
  "Remove env name w =
     (case files w name of
        None \<Rightarrow> (Some ErrNotExist, w)
      | Some f \<Rightarrow>
          if remove_refused env name then (Some ErrPermission, w)
          else (None, w\<lparr> files := (files w)(name := None) \<rparr>))"

definition owner_readable :: "fs_file \<Rightarrow> bool" where
  "owner_readable f = ((perm f div 256) mod 2 = 1)"

definition Open :: "world \<Rightarrow> string \<Rightarrow> os_error + bytes" where
  "Open w name =
     (case files w name of
        None \<Rightarrow> Inl ErrNotExist
      | Some f \<Rightarrow> if owner_readable f then Inr (content f) else Inl ErrPermission)"

text \<open>
  \<open>os.CreateTemp(dir, pattern)\<close>: the last \<open>*\<close> of the pattern is replaced by a
  random string, the name is joined to the directory, and the file is created
  exclusively with \<open>O_CREATE\<close> and mode 0600 (384); a name that is taken is drawn
  again, up to 10000 attempts. The operating system gives the new file the bits of
  the requested mode that the file mode creation mask of the process does not clear
  (\<open>and_not\<close>).
\<close>

fun and_not :: "nat \<Rightarrow> nat \<Rightarrow> nat" where
  "and_not m u =
     (if m = 0 then 0
      else (if odd m \<and> even u then 1 else 0) + 2 * and_not (m div 2) (u div 2))"

declare and_not.simps [simp del]

definition prefixAndSuffix :: "string \<Rightarrow> string \<times> string" where
  "prefixAndSuffix pattern =
     (let pos = LastIndexByte pattern CHR ''*'' in
      if pos \<ge> 0 then (take (nat pos) pattern, drop (nat pos + 1) pattern)
      else (pattern, []))"

definition joinPath :: "string \<Rightarrow> string \<Rightarrow> string" where
  "joinPath dir name =
     (if dir \<noteq> [] \<and> last dir = CHR ''/'' then dir @ name else dir @ ''/'' @ name)"

fun draw_name :: "(nat \<Rightarrow> string) \<Rightarrow> string \<Rightarrow> string \<Rightarrow> (string \<rightharpoonup> fs_file) \<Rightarrow> nat \<Rightarrow> nat
    \<Rightarrow> string option" where
  "draw_name rnd prefix suffix fs attempt left =
     (if left = 0 then None
      else let name = prefix @ rnd attempt @ suffix in
           if fs name = None then Some name
           else draw_name rnd prefix suffix fs (attempt + 1) (left - 1))"

declare draw_name.simps [simp del]

definition CreateTemp :: "os_env \<Rightarrow> string \<Rightarrow> string \<Rightarrow> world \<Rightarrow> (os_error + string) \<times> world" where
  "CreateTemp env dir0 pattern w =
     (let dir = (if dir0 = [] then os_TempDir env else dir0) in
      if CHR ''/'' \<in> set pattern then (Inl ErrPatternHasSeparator, w)
      else if \<not> dir_writable env dir then (Inl ErrNotExist, w)
      else
        (case prefixAndSuffix pattern of (prefix, suffix) \<Rightarrow>
           (case draw_name (temp_random env) (joinPath dir prefix) suffix (files w) 0 10000 of
              None \<Rightarrow> (Inl ErrExist, w)
            | Some name \<Rightarrow>
                (Inr name, w\<lparr> files := (files w)(name \<mapsto>
                              \<lparr> content = [], perm = and_not 384 (umask env) \<rparr>) \<rparr>))))"

text \<open>\<open>tempFile.Chmod(0600)\<close>; 0600 is 384.\<close>

definition Chmod :: "os_env \<Rightarrow> string \<Rightarrow> nat \<Rightarrow> world \<Rightarrow> os_error option \<times> world" where
  "Chmod env name m w =
     (case files w name of
        None \<Rightarrow> (Some ErrNotExist, w)
      | Some f \<Rightarrow>
          if chmod_refused env name then (Some ErrPermission, w)
          else (None, w\<lparr> files := (files w)(name \<mapsto> f\<lparr> perm := m \<rparr>) \<rparr>))"

text \<open>
  \<open>secureCreateTempFile\<close>. The open file it returns is identified by its name
  (\<open>tempFile.Name()\<close>).
\<close>

definition secureCreateTempFile ::
  "os_env \<Rightarrow> string \<Rightarrow> SecurityConfig \<Rightarrow> world \<Rightarrow> (error + string) \<times> world" where
  "secureCreateTempFile env pattern config w =
     (case CreateTemp env (AllowedTempDir config) pattern w of
        (Inl e, w1) \<Rightarrow> (Inl (Wrapf ''failed to create temp file: %w'' [] (OsError e)), w1)
      | (Inr name, w1) \<Rightarrow>
          (case Chmod env name 384 w1 of
             (Some e, w2) \<Rightarrow>
               (Inl (Wrapf ''failed to set secure permissions: %w'' [] (OsError e)),
                snd (Remove env name w2))
           | (None, w2) \<Rightarrow> (Inr name, w2)))"

definition secureCleanup :: "os_env \<Rightarrow> string \<Rightarrow> bool \<Rightarrow> world \<Rightarrow> error option \<times> world" where
  "secureCleanup env filePath keepTemp w =
     (if keepTemp then (None, w)
      else
        (case Remove env filePath w of
           (Some e, w') \<Rightarrow>
             if e \<noteq> ErrNotExist
               then (Some (Wrapf ''failed to cleanup file %s: %w'' [S filePath] (OsError e)), w')
             else (None, w')
         | (None, w') \<Rightarrow> (None, w')))"

section \<open>Floating-point numbers\<close>

text \<open>
  A \<open>float64\<close> is modelled by the rational number it denotes. Every arithmetic
  operation of the source computes the exact result and rounds it to the nearest
  number with a 53-bit significand, ties to the even significand (\<open>fl64\<close>), as
  IEEE 754 binary64 does for results in its normal range; the exponent range
  (overflow, subnormal numbers) is not modelled.
\<close>

type_synonym float64 = rat

definition pow2 :: "int \<Rightarrow> rat" where
  "pow2 e = (if 0 \<le> e then 2 ^ nat e else 1 / 2 ^ nat (- e))"

text \<open>For \<open>x > 0\<close>, the exponent \<open>e\<close> with \<open>2^e \<le> x < 2^(e+1)\<close>.\<close>

definition ilog2 :: "rat \<Rightarrow> int" where
  "ilog2 x = (if 1 \<le> x then bitlen \<lfloor>x\<rfloor> - 1 else - bitlen (\<lceil>1 / x\<rceil> - 1))"

text \<open>Rounding to the nearest integer, ties to even.\<close>

definition rne :: "rat \<Rightarrow> int" where
  "rne m =
     (let f = \<lfloor>m\<rfloor>; d = m - of_int f in
      if d < 1 / 2 then f
      else if 1 / 2 < d then f + 1
      else if even f then f else f + 1)"

definition fl_pos :: "rat \<Rightarrow> rat" where
  "fl_pos x = (let u = pow2 (ilog2 x - 52) in of_int (rne (x / u)) * u)"

definition fl64 :: "rat \<Rightarrow> float64" where
  "fl64 x = (if x = 0 then 0 else if x < 0 then - fl_pos (- x) else fl_pos x)"

definition fmul :: "float64 \<Rightarrow> float64 \<Rightarrow> float64" where
  "fmul x y = fl64 (x * y)"

definition fdiv :: "float64 \<Rightarrow> float64 \<Rightarrow> float64" where
  "fdiv x y = fl64 (x / y)"

definition fadd :: "float64 \<Rightarrow> float64 \<Rightarrow> float64" where
  "fadd x y = fl64 (x + y)"

text \<open>The conversions \<open>float64(i)\<close> and \<open>int(x)\<close> (truncation towards zero).\<close>

definition float64_of_int :: "int \<Rightarrow> float64" where
  "float64_of_int i = fl64 (of_int i)"

definition int_of_float64 :: "float64 \<Rightarrow> int" where
  "int_of_float64 x = (if 0 \<le> x then \<lfloor>x\<rfloor> else \<lceil>x\<rceil>)"

text \<open>Go's \<open>int\<close> is 64 bits wide; a product wraps around.\<close>

definition wrap_int64 :: "int \<Rightarrow> int" where
  "wrap_int64 i = (i + 2 ^ 63) mod 2 ^ 64 - 2 ^ 63"

section \<open>Scale factors\<close>

definition calculateScaleFactor :: "int \<Rightarrow> float64" where
  "calculateScaleFactor pixels =
     (if pixels \<ge> 8 * 1024 * 1024 then fl64 (6 / 10)
      else if pixels \<ge> 4 * 1024 * 1024 then fl64 (75 / 100)
      else if pixels \<ge> 2 * 1024 * 1024 then fl64 (85 / 100)
      else 1)"

definition calculateUserScaleFactor :: "int \<Rightarrow> int \<Rightarrow> int \<Rightarrow> int \<Rightarrow> float64" where
  "calculateUserScaleFactor width height maxWidth maxHeight =
     (if maxWidth \<le> 0 \<and> maxHeight \<le> 0 then 1
      else
        let scaleX = (if maxWidth > 0 \<and> width > maxWidth
                      then fdiv (float64_of_int maxWidth) (float64_of_int width) else 1);
            scaleY = (if maxHeight > 0 \<and> height > maxHeight
                      then fdiv (float64_of_int maxHeight) (float64_of_int height) else 1);
            result = min scaleX scaleY
        in if result > 1 then 1 else result)"

section \<open>Rasters and codecs\<close>

text \<open>
  A decoded raster has a width and a height (\<open>Bounds().Dx()\<close>, \<open>Bounds().Dy()\<close>)
  and a pixel buffer. The decoders of the Go library, the bytes that its encoders
  write for a raster they accept, and the resampling filter are parameters; an encoder
  or decoder that reports an error returns \<open>None\<close>.
\<close>

record image =
  Dx :: int
  Dy :: int
  Pix :: bytes

record codecs =
  imaging_Decode :: "bytes \<Rightarrow> image option"
  png_Decode :: "bytes \<Rightarrow> image option"
  jpeg_Decode :: "bytes \<Rightarrow> image option"
  jpeg_writer :: "image \<Rightarrow> int \<Rightarrow> bytes option"
  png_writer :: "image \<Rightarrow> bytes option"
  lanczos :: "image \<Rightarrow> int \<Rightarrow> int \<Rightarrow> bytes"

text \<open>
  \<open>jpeg.Encode\<close> (image/jpeg) first refuses a raster whose width or height is
  \<open>2^16\<close> or more (\<open>jpeg: image is too large to encode\<close>). \<open>png.Encode\<close>
  (image/png) first refuses a raster whose width or height is not positive, or is
  \<open>2^32\<close> or more (\<open>png: invalid format: invalid image size\<close>).
\<close>

definition jpeg_Encode :: "codecs \<Rightarrow> image \<Rightarrow> int \<Rightarrow> bytes option" where
  "jpeg_Encode cd img quality =
     (if Dx img \<ge> 2 ^ 16 \<or> Dy img \<ge> 2 ^ 16 then None else jpeg_writer cd img quality)"

definition png_Encode :: "codecs \<Rightarrow> image \<Rightarrow> bytes option" where
  "png_Encode cd img =
     (if Dx img \<le> 0 \<or> Dy img \<le> 0 \<or> Dx img \<ge> 2 ^ 32 \<or> Dy img \<ge> 2 ^ 32 then None
      else png_writer cd img)"

text \<open>
  \<open>imaging.Resize\<close> (github.com/disintegration/imaging v1.6.2): a negative
  dimension, two zero dimensions or an empty source give the empty image; one zero
  dimension is replaced so that the aspect ratio is kept, at least one pixel; the
  result has the requested dimensions.
\<close>

definition empty_image :: image where
  "empty_image = \<lparr> Dx = 0, Dy = 0, Pix = [] \<rparr>"

definition keep_aspect :: "int \<Rightarrow> int \<Rightarrow> int \<Rightarrow> int" where
  "keep_aspect d a b =
     (let tmp = fdiv (fmul (float64_of_int d) (float64_of_int a)) (float64_of_int b)
      in int_of_float64 (max 1 (of_int \<lfloor>fadd tmp (1 / 2)\<rfloor>)))"

definition Resize :: "codecs \<Rightarrow> image \<Rightarrow> int \<Rightarrow> int \<Rightarrow> image" where
  "Resize cd img width height =
     (if width < 0 \<or> height < 0 then empty_image
      else if width = 0 \<and> height = 0 then empty_image
      else if Dx img \<le> 0 \<or> Dy img \<le> 0 then empty_image
      else
        let dstW = (if width = 0 then keep_aspect height (Dx img) (Dy img) else width);
            dstH = (if height = 0 then keep_aspect dstW (Dy img) (Dx img) else height)
        in if Dx img = dstW \<and> Dy img = dstH then img
           else \<lparr> Dx = dstW, Dy = dstH, Pix = lanczos cd img dstW dstH \<rparr>)"

section \<open>The adaptive encoder\<close>

record ProcessImageOptions =
  MaxSizeBytes :: int
  MaxWidth :: int
  MaxHeight :: int
  Quality :: int
  OutputFormat :: string
  TempDir :: string

definition DefaultProcessImageOptions :: ProcessImageOptions where
  "DefaultProcessImageOptions =
     \<lparr> MaxSizeBytes = 7 * 1024 * 1024, MaxWidth = 0, MaxHeight = 0, Quality = 85,
       OutputFormat = ''png'', TempDir = [] \<rparr>"

text \<open>The input of \<open>decodeImage\<close> is an \<open>interface{}\<close>: a path, a byte buffer, or
  a value of another type (of which only the type name is used).\<close>

datatype input = Path string | Buffer bytes | Other string

definition decode_formats :: "codecs \<Rightarrow> bytes \<Rightarrow> error + image \<times> string" where
  "decode_formats cd data =
     (case imaging_Decode cd data of
        Some img \<Rightarrow> Inr (img, ''unknown'')
      | None \<Rightarrow>
     (case png_Decode cd data of
        Some pngImg \<Rightarrow> Inr (pngImg, ''png'')
      | None \<Rightarrow>
     (case jpeg_Decode cd data of
        Some jpegImg \<Rightarrow> Inr (jpegImg, ''jpeg'')
      | None \<Rightarrow> Inl (Errorf ''unsupported image format'' []))))"

definition decodeImage :: "os_env \<Rightarrow> codecs \<Rightarrow> world \<Rightarrow> input \<Rightarrow> error + image \<times> string" where
  "decodeImage env cd w inp =
     (case inp of
        Path v \<Rightarrow>
          (let config = DefaultSecurityConfig env in
           case validateFilePath v config of
             Inl err \<Rightarrow> Inl (NewSecurityError ''path_validation'' ''invalid file path'' (Some err))
           | Inr cleanPath \<Rightarrow>
          (case validateFileExtension cleanPath of
             Some err \<Rightarrow>
               Inl (NewSecurityError ''extension_validation'' ''invalid file extension'' (Some err))
           | None \<Rightarrow>
          (case validateFileSize w cleanPath MaxFileSize_const of
             Some err \<Rightarrow>
               Inl (NewSecurityError ''size_validation'' ''file size validation failed'' (Some err))
           | None \<Rightarrow>
          (case Open w cleanPath of
             Inl e \<Rightarrow> Inl (Wrapf ''failed to open file: %w'' [] (OsError e))
           | Inr data \<Rightarrow> decode_formats cd data))))
      | Buffer v \<Rightarrow>
          if int (length v) > MaxFileSize_const
            then Inl (NewSecurityError ''size_validation'' ''input data too large'' None)
          else decode_formats cd v
      | Other t \<Rightarrow> Inl (InputValidationError ''input_type'' t ''unsupported input type''))"

definition encodeImageWithCompression ::
  "codecs \<Rightarrow> image \<Rightarrow> ProcessImageOptions \<Rightarrow> error + bytes \<times> string" where
  "encodeImageWithCompression cd img options =
     (let fmt = ToLower (OutputFormat options) in
      if fmt = ''jpeg'' then
        (case jpeg_Encode cd img (Quality options) of
           None \<Rightarrow> Inl (CodecError ''jpeg'')
         | Some buf \<Rightarrow> Inr (buf, ''.jpg''))
      else if fmt = ''png'' then
        (case png_Encode cd img of
           None \<Rightarrow> Inl (CodecError ''png'')
         | Some buf \<Rightarrow> Inr (buf, ''.png''))
      else Inl (Errorf ''unsupported output format: %s'' [S (OutputFormat options)]))"

text \<open>
  The loop of \<open>ProcessImage\<close>. Besides the result of the function it returns the list
  of the rasters handed to the encoder, latest first. \<open>lastResult\<close> is the value of the
  variables \<open>result\<close> and \<open>ext\<close>. The result \<open>None\<close> stands for a loop that never
  exits.
\<close>

definition minFactor :: float64 where
  "minFactor = fl64 (1 / 10)"

partial_function (option) resize_loop ::
  "codecs \<Rightarrow> image \<Rightarrow> ProcessImageOptions \<Rightarrow> float64 \<Rightarrow> float64 \<Rightarrow> bytes \<times> string \<Rightarrow> image list
     \<Rightarrow> ((error + bytes \<times> string) \<times> image list) option" where
  "resize_loop cd img options scaleFactor currentFactor lastResult encoded =
     (if currentFactor \<ge> minFactor then
        (let targetFactor0 = fmul currentFactor scaleFactor;
             targetFactor = (if targetFactor0 > 1 then 1 else targetFactor0);
             newWidth = int_of_float64 (fmul (float64_of_int (Dx img)) targetFactor);
             newHeight = int_of_float64 (fmul (float64_of_int (Dy img)) targetFactor);
             scaledImg = Resize cd img newWidth newHeight
         in case encodeImageWithCompression cd scaledImg options of
              Inl err \<Rightarrow>
                Some (Inl (Wrapf ''failed to encode scaled image: %w'' [] err), scaledImg # encoded)
            | Inr r \<Rightarrow>
                if int (length (fst r)) \<le> MaxSizeBytes options
                  then Some (Inr r, scaledImg # encoded)
                else resize_loop cd img options scaleFactor (fmul targetFactor (fl64 (8 / 10)))
                       r (scaledImg # encoded))
      else Some (Inr lastResult, encoded))"

declare resize_loop.simps [code]

definition ProcessImage_defaults :: "os_env \<Rightarrow> ProcessImageOptions \<Rightarrow> ProcessImageOptions" where
  "ProcessImage_defaults env options0 =
     (let options1 = (if MaxSizeBytes options0 \<le> 0
                      then options0\<lparr> MaxSizeBytes := MaxSizeBytes DefaultProcessImageOptions \<rparr>
                      else options0);
          options2 = (if Quality options1 \<le> 0
                      then options1\<lparr> Quality := Quality DefaultProcessImageOptions \<rparr>
                      else options1);
          options3 = (if OutputFormat options2 = []
                      then options2\<lparr> OutputFormat := OutputFormat DefaultProcessImageOptions \<rparr>
                      else options2)
      in if TempDir options3 = [] then options3\<lparr> TempDir := os_TempDir env \<rparr> else options3)"

definition ProcessImage_trace ::
  "os_env \<Rightarrow> codecs \<Rightarrow> world \<Rightarrow> input \<Rightarrow> ProcessImageOptions
     \<Rightarrow> ((error + bytes \<times> string) \<times> image list) option" where
  "ProcessImage_trace env cd w inp options0 =
     (let options = ProcessImage_defaults env options0 in
      case decodeImage env cd w inp of
        Inl err \<Rightarrow> Some (Inl (Wrapf ''failed to decode image: %w'' [] err), [])
      | Inr (img, hint) \<Rightarrow>
          let originalWidth = Dx img;
              originalHeight = Dy img;
              originalPixels = wrap_int64 (originalWidth * originalHeight)
          in
          (case encodeImageWithCompression cd img options of
             Inl err \<Rightarrow> Some (Inl (Wrapf ''failed to encode image: %w'' [] err), [img])
           | Inr r \<Rightarrow>
               if int (length (fst r)) \<le> MaxSizeBytes options then Some (Inr r, [img])
               else
                 let scaleFactor0 = calculateScaleFactor originalPixels;
                     scaleFactor =
                       (if MaxWidth options > 0 \<or> MaxHeight options > 0 then
                          let userScaleFactor =
                                calculateUserScaleFactor originalWidth originalHeight
                                  (MaxWidth options) (MaxHeight options)
                          in if userScaleFactor < scaleFactor0 then userScaleFactor
                             else scaleFactor0
                        else scaleFactor0)
                 in resize_loop cd img options scaleFactor 1 r [img]))"

text \<open>\<open>ProcessImage\<close> itself returns the bytes and the extension, or an error.\<close>

definition ProcessImage ::
  "os_env \<Rightarrow> codecs \<Rightarrow> world \<Rightarrow> input \<Rightarrow> ProcessImageOptions \<Rightarrow> (error + bytes \<times> string) option" where
  "ProcessImage env cd w inp options = map_option fst (ProcessImage_trace env cd w inp options)"

text \<open>
  The raster that one round of the loop hands to the encoder, as a function of the
  target factor of that round (the values \<open>newWidth\<close>, \<open>newHeight\<close> and
  \<open>scaledImg\<close> of the loop body).
\<close>

definition candidate :: "codecs \<Rightarrow> image \<Rightarrow> float64 \<Rightarrow> image" where
  "candidate cd img targetFactor =
     Resize cd img (int_of_float64 (fmul (float64_of_int (Dx img)) targetFactor))
                   (int_of_float64 (fmul (float64_of_int (Dy img)) targetFactor))"

section \<open>RAW conversion\<close>

record ARWProcessOptions =
  Bitness :: int
  Compression :: int
  ColorSpace :: string
  WhiteBalance :: string
  Exposure :: float64
  Contrast :: float64
  Saturation :: float64
  TempDir_arw :: string
  KeepTemp :: bool

definition DefaultARWProcessOptions :: ARWProcessOptions where
  "DefaultARWProcessOptions =
     \<lparr> Bitness = 16, Compression = 6, ColorSpace = ''sRGB'', WhiteBalance = ''camera'',
       Exposure = 0, Contrast = 0, Saturation = 0, TempDir_arw = [], KeepTemp = False \<rparr>"

definition isDarktableAvailable :: "os_env \<Rightarrow> bool" where
  "isDarktableAvailable env =
     (let config = DefaultSecurityConfig env in
      LookPath env ''darktable-cli'' \<and> allowed (AllowedCommands config) ''darktable-cli'')"

definition colorSpaceMap :: "string \<rightharpoonup> string" where
  "colorSpaceMap = [''sRGB'' \<mapsto> ''2'', ''AdobeRGB'' \<mapsto> ''1'', ''ProPhoto'' \<mapsto> ''3'']"

definition wbMap :: "string \<rightharpoonup> string" where
  "wbMap = [''camera'' \<mapsto> ''camera'', ''auto'' \<mapsto> ''auto'', ''manual'' \<mapsto> ''manual'']"

definition buildDarktableArgs ::
  "os_env \<Rightarrow> string \<Rightarrow> string \<Rightarrow> ARWProcessOptions \<Rightarrow> error + string list" where
  "buildDarktableArgs env inputPath outputPath options =
     (case validateFilePath inputPath (DefaultSecurityConfig env) of
        Inl err \<Rightarrow> Inl (NewSecurityError ''path_validation'' ''invalid input path'' (Some err))
      | Inr _ \<Rightarrow>
     (case validateFilePath outputPath (DefaultSecurityConfig env) of
        Inl err \<Rightarrow> Inl (NewSecurityError ''path_validation'' ''invalid output path'' (Some err))
      | Inr _ \<Rightarrow>
        if Bitness options \<noteq> 8 \<and> Bitness options \<noteq> 16
          then Inl (InputValidationError ''bitness'' (Itoa (Bitness options)) ''must be 8 or 16'')
        else if Compression options < 0 \<or> Compression options > 9
          then Inl (InputValidationError ''compression'' (Itoa (Compression options))
                      ''must be between 0 and 9'')
        else
          let args0 = [inputPath, outputPath];
              bitArgs = [''--core'', ''--conf'',
                         ''plugins/imageio/format/png/bpp='' @ Itoa (Bitness options)];
              args1 = args0 @ bitArgs;
              compressionArgs = [''--core'', ''--conf'',
                         ''plugins/imageio/format/png/compression='' @ Itoa (Compression options)];
              args2 = args1 @ compressionArgs
          in
          (case colorSpaceMap (ColorSpace options) of
             None \<Rightarrow> Inl (InputValidationError ''colorspace'' (ColorSpace options)
                             ''must be sRGB, AdobeRGB, or ProPhoto'')
           | Some colorSpaceID \<Rightarrow>
               let colorSpaceArgs = [''--core'', ''--conf'',
                         ''plugins/lighttable/export/colorspace='' @ colorSpaceID];
                   args3 = args2 @ colorSpaceArgs
               in
               (case wbMap (WhiteBalance options) of
                  None \<Rightarrow> Inl (InputValidationError ''whitebalance'' (WhiteBalance options)
                                  ''must be camera, auto, or manual'')
                | Some wbMode \<Rightarrow>
                    let wbArgs = [''--core'', ''--conf'',
                              ''plugins/lighttable/export/wb='' @ wbMode];
                        args4 = args3 @ wbArgs;
                        hqArgs = [''--hq'', ''--upscale''];
                        args5 = args4 @ hqArgs
                    in Inr (args5 @ [''--conf'', ''plugins/lighttable/export/overwrite=true''])))))"

definition safeExecuteDarktableCommand ::
  "os_env \<Rightarrow> string \<Rightarrow> string \<Rightarrow> ARWProcessOptions \<Rightarrow> world \<Rightarrow> error option \<times> world" where
  "safeExecuteDarktableCommand env inputPath outputPath options w =
     (let config = DefaultSecurityConfig env in
      case buildDarktableArgs env inputPath outputPath options of
        Inl err \<Rightarrow> (Some (Wrapf ''failed to build command args: %w'' [] err), w)
      | Inr args \<Rightarrow> safeExecuteCommand env ''darktable-cli'' args config w)"

text \<open>\<open>extractExt\<close> slices the name at the last dot and panics when there is none.\<close>

definition extractExt :: "string \<Rightarrow> string option" where
  "extractExt filename =
     (let i = LastIndexByte filename CHR ''.'' in
      if i < 0 then None else Some (ToLower (drop (nat i) filename)))"

definition hasSuffixIgnoreCase :: "string \<Rightarrow> string \<Rightarrow> bool" where
  "hasSuffixIgnoreCase s suffix = HasSuffix (ToLower s) (ToLower suffix)"

text \<open>
  \<open>ProcessARWToPNG\<close>. Once the temporary output file exists, every return runs the
  deferred clean-up, whose own failure is only printed.
\<close>

definition ProcessARWToPNG ::
  "os_env \<Rightarrow> string \<Rightarrow> ARWProcessOptions \<Rightarrow> world \<Rightarrow> (error + bytes) \<times> world" where
  "ProcessARWToPNG env arwPath options0 w =
     (let options = (if TempDir_arw options0 = []
                     then options0\<lparr> TempDir_arw := os_TempDir env \<rparr> else options0);
          config = (DefaultSecurityConfig env)\<lparr> AllowedTempDir := TempDir_arw options \<rparr>
      in
      case validateFilePath arwPath config of
        Inl err \<Rightarrow>
          (Inl (NewSecurityError ''path_validation'' ''invalid ARW file path'' (Some err)), w)
      | Inr cleanPath \<Rightarrow>
     (case validateFileExtension cleanPath of
        Some err \<Rightarrow>
          (Inl (NewSecurityError ''extension_validation'' ''invalid file extension for ARW''
                  (Some err)), w)
      | None \<Rightarrow>
     (case validateFileSize w cleanPath MaxFileSize_const of
        Some err \<Rightarrow>
          (Inl (NewSecurityError ''size_validation'' ''ARW file too large'' (Some err)), w)
      | None \<Rightarrow>
        if Stat w cleanPath = Inl ErrNotExist
          then (Inl (Errorf ''ARW file does not exist: %s'' [S cleanPath]), w)
        else if \<not> isDarktableAvailable env
          then (Inl (Errorf ''darktable-cli is not available. Please install darktable-cli'' []), w)
        else
          (case secureCreateTempFile env ''arw_output_*.png'' config w of
             (Inl err, w1) \<Rightarrow>
               (Inl (Wrapf ''failed to create secure temp output file: %w'' [] err), w1)
           | (Inr tempOutputPath, w1) \<Rightarrow>
               let cleanup = (\<lambda>w'. snd (secureCleanup env tempOutputPath (KeepTemp options) w'))
               in
               (case safeExecuteDarktableCommand env cleanPath tempOutputPath options w1 of
                  (Some err, w2) \<Rightarrow>
                    (Inl (Wrapf ''darktable-cli execution failed: %w'' [] err), cleanup w2)
                | (None, w2) \<Rightarrow>
                    (case Open w2 tempOutputPath of
                       Inl e \<Rightarrow>
                         (Inl (Wrapf ''failed to read output PNG file: %w'' [] (OsError e)),
                          cleanup w2)
                     | Inr pngData \<Rightarrow>
                         if int (length pngData) > MaxFileSize_const
                           then (Inl (NewSecurityError ''size_validation''
                                        ''output PNG file too large'' None), cleanup w2)
                         else (Inr pngData, cleanup w2)))))))"

text \<open>\<open>ValidateARWFile\<close>; the header is the first 512 bytes of the file.\<close>

definition ftyp_magic :: bytes where
  "ftyp_magic = [CHR 0x00, CHR 0x00, CHR 0x00, CHR 0x18] @ ''FTYP''"

definition ValidateARWFile :: "os_env \<Rightarrow> world \<Rightarrow> string \<Rightarrow> error option" where
  "ValidateARWFile env w arwPath =
     (let config = DefaultSecurityConfig env in
      case validateFilePath arwPath config of
        Inl err \<Rightarrow> Some (NewSecurityError ''path_validation'' ''invalid ARW file path'' (Some err))
      | Inr cleanPath \<Rightarrow>
     (case validateFileExtension cleanPath of
        Some err \<Rightarrow>
          Some (NewSecurityError ''extension_validation'' ''invalid file extension for ARW''
                  (Some err))
      | None \<Rightarrow>
     (case validateFileSize w cleanPath MaxFileSize_const of
        Some err \<Rightarrow>
          Some (NewSecurityError ''size_validation'' ''ARW file size validation failed'' (Some err))
      | None \<Rightarrow>
     (case Stat w cleanPath of
        Inl ErrNotExist \<Rightarrow> Some (Errorf ''file does not exist: %s'' [S cleanPath])
      | Inl e \<Rightarrow> Some (Wrapf ''failed to access file: %w'' [] (OsError e))
      | Inr fileSize \<Rightarrow>
          if fileSize = 0 then Some (Errorf ''file is empty: %s'' [S cleanPath])
          else
            (case extractExt cleanPath of
               None \<Rightarrow> Some (Panic ''slice bounds out of range'')
             | Some ext \<Rightarrow>
                 if ext \<noteq> ''.arw'' \<and> ext \<noteq> ''.srf'' \<and> ext \<noteq> ''.sr2''
                   then Some (Errorf
                     ''unsupported file extension: %s (expected .arw, .srf, or .sr2)'' [S ext])
                 else
                   (case Open w cleanPath of
                      Inl e \<Rightarrow> Some (Wrapf ''failed to open file: %w'' [] (OsError e))
                    | Inr data \<Rightarrow>
                        let buffer = take 512 data in
                        if buffer = []
                          then Some (Wrapf ''failed to read file header: %w'' []
                                       (OsError EOF))
                        else
                          let isValidARW = (Contains buffer ''ARW'' \<or> Contains buffer ''SONY''
                                            \<or> Contains buffer ftyp_magic)
                          in if \<not> isValidARW
                               then Some (Errorf
                                 ''file does not appear to be a valid ARW file: %s'' [S cleanPath])
                             else None))))))"

section \<open>A sample environment\<close>

text \<open>
  Concrete values on which the theorems below are instantiated: an operating system
  whose temporary directory is \<open>/tmp\<close>, where only \<open>darktable-cli\<close> is installed and
  the file mode creation mask is 022 (18), and every started process writes a small
  file at its second argument; codecs that decode two fixed buffers and write two
  bytes for a raster, and one more for every hundred pixels of width; and a file
  system with two files. In \<open>masking_env\<close> the mask is 0277 (191), which clears the
  owner's write bit of a new file; in \<open>refusing_env\<close> the operating system refuses to
  remove any file (as it does in a directory that the process may not write to).
\<close>

definition sample_env :: os_env where
  "sample_env =
     \<lparr> os_TempDir = ''/tmp'',
       LookPath = (\<lambda>name. name = ''darktable-cli''),
       temp_random = (\<lambda>n. ''123456''),
       dir_writable = (\<lambda>dir. True),
       umask = 18,
       chmod_refused = (\<lambda>name. False),
       remove_refused = (\<lambda>name. False),
       process = (\<lambda>name args dir timeout fs.
          (Exited_Ok,
           case args of
             a # b # _ \<Rightarrow> fs(b \<mapsto> \<lparr> content = ''PNGDATA'', perm = 384 \<rparr>)
           | _ \<Rightarrow> fs)) \<rparr>"



definition sample_codecs :: codecs where
  "sample_codecs =
     \<lparr> imaging_Decode = (\<lambda>b.
          if b = ''big'' then Some \<lparr> Dx = 4000, Dy = 3000, Pix = ''p'' \<rparr>
          else if b = ''small'' then Some \<lparr> Dx = 5, Dy = 5, Pix = ''q'' \<rparr>
          else None),
       png_Decode = (\<lambda>b. None),
       jpeg_Decode = (\<lambda>b. None),
       jpeg_writer = (\<lambda>img q. Some (replicate (nat (Dx img div 100) + 2) CHR ''j'')),
       png_writer = (\<lambda>img. Some (replicate (nat (Dx img div 100) + 2) CHR ''p'')),
       lanczos = (\<lambda>img w h. ''r'') \<rparr>"

definition sample_world :: world where
  "sample_world =
     \<lparr> files = [''photo.png'' \<mapsto> \<lparr> content = ''abc'', perm = 420 \<rparr>,
                ''photo.arw'' \<mapsto> \<lparr> content = ''xxSONYxx'', perm = 420 \<rparr>],
       spawned = [] \<rparr>"

section \<open>Properties of cleaned paths\<close>

lemma SplitByte_no_sep: "e \<in> set (SplitByte s sep) \<Longrightarrow> sep \<notin> set e"
  by (induction s arbitrary: e) (auto split: if_splits list.splits)

lemma SplitByte_not_Nil: "SplitByte s sep \<noteq> []"
  by (cases s) (auto split: list.splits)

lemma clean_elems_inv:
  "\<forall>e \<in> set acc. e \<noteq> [] \<and> CHR ''/'' \<notin> set e \<Longrightarrow> \<forall>e \<in> set es. CHR ''/'' \<notin> set e
    \<Longrightarrow> \<forall>e \<in> set (clean_elems rooted acc es). e \<noteq> [] \<and> CHR ''/'' \<notin> set e"
proof (induction es arbitrary: acc)
  case Nil
  then show ?case by simp
next
  case (Cons e es)
  let ?P = "\<lambda>x::string. x \<noteq> [] \<and> CHR ''/'' \<notin> set x"
  have es: "\<forall>x \<in> set es. CHR ''/'' \<notin> set x" and e: "CHR ''/'' \<notin> set e"
    using Cons.prems(2) by simp_all
  have IH: "\<forall>x \<in> set (clean_elems rooted acc' es). ?P x" if "\<forall>x \<in> set acc'. ?P x" for acc'
    using Cons.IH[OF that es] .
  have dd: "?P ''..''" by simp
  consider (skip) "e = [] \<or> e = ''.''"
    | (up) "\<not> (e = [] \<or> e = ''.'')" "e = ''..''"
    | (elem) "\<not> (e = [] \<or> e = ''.'')" "e \<noteq> ''..''"
    by blast
  then show ?case
  proof cases
    case skip
    then have "clean_elems rooted acc (e # es) = clean_elems rooted acc es" by auto
    then show ?thesis using IH[OF Cons.prems(1)] by simp
  next
    case up
    show ?thesis
    proof (cases acc)
      case Nil
      have n: "\<forall>x \<in> set ([]::string list). ?P x" by simp
      have o: "\<forall>x \<in> set [''..'']. ?P x" by simp
      from Nil up have "clean_elems rooted acc (e # es) =
          (if rooted then clean_elems rooted [] es else clean_elems rooted [''..''] es)"
        by simp
      then show ?thesis using IH[OF n] IH[OF o] by (simp split: if_splits)
    next
      case (Cons a as)
      have p1: "\<forall>x \<in> set (''..'' # a # as). ?P x" using Cons.prems(1) Cons by simp
      have p2: "\<forall>x \<in> set as. ?P x" using Cons.prems(1) Cons by simp
      from Cons up have "clean_elems rooted acc (e # es) =
          (if a = ''..'' then clean_elems rooted (''..'' # a # as) es else clean_elems rooted as es)"
        by simp
      then show ?thesis using IH[OF p1] IH[OF p2] by (simp split: if_splits)
    qed
  next
    case elem
    then have ne: "e \<noteq> []" by simp
    have p: "\<forall>x \<in> set (e # acc). ?P x" using Cons.prems(1) e ne by simp
    from elem have "clean_elems rooted acc (e # es) = clean_elems rooted (e # acc) es" by simp
    then show ?thesis using IH[OF p] by simp
  qed
qed
lemma hd_not_member: "e \<noteq> [] \<Longrightarrow> c \<notin> set e \<Longrightarrow> hd e \<noteq> c"
  by (cases e) auto

lemma join_slash_hd:
  "xs \<noteq> [] \<Longrightarrow> \<forall>e \<in> set xs. e \<noteq> [] \<and> CHR ''/'' \<notin> set e \<Longrightarrow>
     join_slash xs \<noteq> [] \<and> hd (join_slash xs) \<noteq> CHR ''/''"
proof (cases xs)
  case Nil
  assume "xs \<noteq> []"
  with Nil show ?thesis by simp
next
  case (Cons e es)
  assume "\<forall>e \<in> set xs. e \<noteq> [] \<and> CHR ''/'' \<notin> set e"
  with Cons have e: "e \<noteq> []" "CHR ''/'' \<notin> set e" by simp_all
  then have h: "hd e \<noteq> CHR ''/''" by (rule hd_not_member)
  show ?thesis
  proof (cases es)
    case Nil
    with Cons e h show ?thesis by simp
  next
    case (Cons f fs)
    with \<open>xs = e # es\<close> e h show ?thesis by (simp add: hd_append)
  qed
qed

lemma IsAbs_Clean: "IsAbs (Clean p) = IsAbs p"
proof (cases p)
  case Nil
  then show ?thesis by (simp add: Clean_def IsAbs_def)
next
  case (Cons c cs)
  show ?thesis
  proof (cases "c = CHR ''/''")
    case True
    then show ?thesis using Cons by (simp add: Clean_def IsAbs_def Let_def)
  next
    case False
    let ?xs = "rev (clean_elems False [] (SplitByte p CHR ''/''))"
    have inv: "\<forall>e \<in> set ?xs. e \<noteq> [] \<and> CHR ''/'' \<notin> set e"
      using clean_elems_inv[of "[]" "SplitByte p CHR ''/''" False] SplitByte_no_sep[of _ p "CHR ''/''"]
      by auto
    have "\<not> IsAbs (if join_slash ?xs = [] then ''.'' else join_slash ?xs)"
    proof (cases "?xs = []")
      case True
      then show ?thesis by (simp add: IsAbs_def)
    next
      case False
      from join_slash_hd[OF False inv] show ?thesis
        by (cases "join_slash ?xs") (auto simp: IsAbs_def)
    qed
    moreover have "p \<noteq> []" "hd p \<noteq> CHR ''/''" "\<not> IsAbs p"
      using Cons False by (simp_all add: IsAbs_def)
    ultimately show ?thesis unfolding Clean_def Let_def by (auto split: if_splits)
  qed
qed


section \<open>Command execution\<close>

text \<open>
  C1. No command is executed unless its name is in the allow-list.
  \<open>validateCommandName\<close> succeeds exactly for the names that the policy maps to
  \<open>true\<close> and that contain no shell metacharacter. When it fails,
  \<open>safeExecuteCommand\<close> returns an error and leaves the world as it was: no process is
  started. Whenever \<open>safeExecuteCommand\<close> does start a process, the name passed
  validation, is in the allow-list, and the process started is that command.
\<close>

theorem safeExecuteCommand_allow_list:
  "(validateCommandName cmdName config = None \<longleftrightarrow>
      AllowedCommands config cmdName = Some True \<and> \<not> dangerousCommandChars cmdName)
   \<and> (validateCommandName cmdName config \<noteq> None \<longrightarrow>
        (\<exists>err. safeExecuteCommand env cmdName args config w = (Some err, w)))
   \<and> (spawned (snd (safeExecuteCommand env cmdName args config w)) \<noteq> spawned w \<longrightarrow>
        validateCommandName cmdName config = None
        \<and> AllowedCommands config cmdName = Some True
        \<and> spawned (snd (safeExecuteCommand env cmdName args config w))
            = (cmdName, args, AllowedTempDir config) # spawned w)"
proof (intro conjI impI)
  show "validateCommandName cmdName config = None \<longleftrightarrow>
      AllowedCommands config cmdName = Some True \<and> \<not> dangerousCommandChars cmdName"
    by (auto simp: validateCommandName_def allowed_def split: option.splits)
next
  assume "validateCommandName cmdName config \<noteq> None"
  then show "\<exists>err. safeExecuteCommand env cmdName args config w = (Some err, w)"
    by (auto simp: safeExecuteCommand_def)
next
  assume a: "spawned (snd (safeExecuteCommand env cmdName args config w)) \<noteq> spawned w"
  show v: "validateCommandName cmdName config = None"
  proof (rule ccontr)
    assume "validateCommandName cmdName config \<noteq> None"
    then have "snd (safeExecuteCommand env cmdName args config w) = w"
      by (auto simp: safeExecuteCommand_def)
    with a show False by simp
  qed
  then show "AllowedCommands config cmdName = Some True"
    by (auto simp: validateCommandName_def allowed_def split: option.splits if_splits)
  from a v show "spawned (snd (safeExecuteCommand env cmdName args config w))
            = (cmdName, args, AllowedTempDir config) # spawned w"
    by (auto simp: safeExecuteCommand_def Let_def
             split: option.splits prod.splits run_outcome.splits)
qed

theorem safeExecuteCommand_allow_list_witness:
  "spawned (snd (safeExecuteCommand sample_env ''echo'' [''hello'']
       (DefaultSecurityConfig sample_env) sample_world)) = [(''echo'', [''hello''], ''/tmp'')]
   \<and> validateCommandName ''echo'' (DefaultSecurityConfig sample_env) = None
   \<and> validateCommandName ''darktable-cli; rm -rf /'' (DefaultSecurityConfig sample_env) \<noteq> None
   \<and> fst (safeExecuteCommand sample_env ''darktable-cli; rm -rf /'' []
       (DefaultSecurityConfig sample_env) sample_world) \<noteq> None
   \<and> snd (safeExecuteCommand sample_env ''darktable-cli; rm -rf /'' []
       (DefaultSecurityConfig sample_env) sample_world) = sample_world"
proof -
  let ?cfg = "DefaultSecurityConfig sample_env"
  have a: "AllowedCommands ?cfg ''echo'' = Some True"
    by (simp add: DefaultSecurityConfig_def)
  have b: "\<not> dangerousCommandChars ''echo''"
    by (simp add: dangerousCommandChars_def commandMetaChars_def)
  have c: "AllowedCommands ?cfg ''darktable-cli; rm -rf /'' \<noteq> Some True"
    by (simp add: DefaultSecurityConfig_def)
  have d: "spawned (snd (safeExecuteCommand sample_env ''echo'' [''hello''] ?cfg sample_world))
             \<noteq> spawned sample_world"
    using a b
    by (simp add: safeExecuteCommand_def validateCommandName_def allowed_def
          dangerousCommandChars_def commandMetaChars_def dangerousPathChars_def
          sample_env_def sample_world_def Let_def)
  have e: "AllowedTempDir ?cfg = ''/tmp''" "spawned sample_world = []"
    by (simp_all add: DefaultSecurityConfig_def sample_env_def sample_world_def)
  show ?thesis
    using safeExecuteCommand_allow_list[of "''echo''" ?cfg sample_env "[''hello'']" sample_world]
      safeExecuteCommand_allow_list[of "''darktable-cli; rm -rf /''" ?cfg sample_env "[]"
        sample_world]
      a b c d e
    by auto
qed

section \<open>Path validation\<close>

text \<open>
  C8, as the code has it. \<open>validateFilePath\<close> cleans the path and then fails for
  every path whose cleaned form contains two consecutive dots, for every absolute
  path, for every path whose cleaned form matches the traversal pattern, and for
  every path whose cleaned form is longer than 260 bytes; every other path is
  accepted and returned cleaned. \<open>a/../../etc/passwd\<close> is rejected as a traversal and
  \<open>images/photo.png\<close> is returned unchanged.
\<close>

theorem validateFilePath_cleaned:
  "((Contains (Clean p) ''..'' \<or> IsAbs p \<or> dangerousPathChars (Clean p) \<or> length (Clean p) > 260)
      \<longrightarrow> (\<exists>e. validateFilePath p config = Inl e))
   \<and> (\<not> (Contains (Clean p) ''..'' \<or> IsAbs p \<or> dangerousPathChars (Clean p) \<or> length (Clean p) > 260)
      \<longrightarrow> validateFilePath p config = Inr (Clean p))
   \<and> validateFilePath ''a/../../etc/passwd'' config
        = Inl (Errorf ''path traversal detected: %s'' [S ''a/../../etc/passwd''])
   \<and> validateFilePath ''images/photo.png'' config = Inr ''images/photo.png''"
proof -
  have c1: "Clean ''a/../../etc/passwd'' = ''../etc/passwd''" by code_simp
  have c2: "Clean ''images/photo.png'' = ''images/photo.png''" by code_simp
  have k2: "\<not> Contains ''images/photo.png'' ''..''" by code_simp
  have d2: "\<not> dangerousPathChars ''images/photo.png''" by code_simp
  have k1: "Contains ''../etc/passwd'' ''..''" by code_simp
  have a2: "\<not> IsAbs ''images/photo.png''" by (simp add: IsAbs_def)
  have "validateFilePath ''a/../../etc/passwd'' config
        = Inl (Errorf ''path traversal detected: %s'' [S ''a/../../etc/passwd''])"
    using c1 k1 by (simp add: validateFilePath_def)
  moreover have "validateFilePath ''images/photo.png'' config = Inr ''images/photo.png''"
    using c2 k2 d2 a2 by (simp add: validateFilePath_def)
  moreover have "(Contains (Clean p) ''..'' \<or> IsAbs p \<or> dangerousPathChars (Clean p)
        \<or> length (Clean p) > 260) \<longrightarrow> (\<exists>e. validateFilePath p config = Inl e)"
    by (simp add: validateFilePath_def Let_def IsAbs_Clean)
  moreover have "\<not> (Contains (Clean p) ''..'' \<or> IsAbs p \<or> dangerousPathChars (Clean p)
        \<or> length (Clean p) > 260) \<longrightarrow> validateFilePath p config = Inr (Clean p)"
    by (simp add: validateFilePath_def Let_def IsAbs_Clean)
  ultimately show ?thesis by blast
qed


theorem validateFilePath_cleaned_witness:
  "validateFilePath ''a/../b'' (DefaultSecurityConfig sample_env) = Inr ''b''
   \<and> IsAbs ''/etc/passwd''
   \<and> (\<exists>e. validateFilePath ''/etc/passwd'' (DefaultSecurityConfig sample_env) = Inl e)"
proof -
  have c: "Clean ''a/../b'' = ''b''" by code_simp
  have k: "\<not> Contains ''b'' ''..''" "\<not> dangerousPathChars ''b''" "\<not> IsAbs ''a/../b''"
    by (simp_all add: dangerousPathChars_def IsAbs_def)
  have a: "IsAbs ''/etc/passwd''" by (simp add: IsAbs_def)
  show ?thesis
    using validateFilePath_cleaned[of "''a/../b''" "DefaultSecurityConfig sample_env"]
      validateFilePath_cleaned[of "''/etc/passwd''" "DefaultSecurityConfig sample_env"]
      c k a
    by simp
qed

text \<open>
  The two checks on the pattern and on the length do not look at the path as it was
  given: \<open>a/../b\<close> contains the traversal pattern and is accepted, and so is a path
  of 263 bytes that cleans to a single letter.
\<close>

theorem validateFilePath_raw_counterexample:
  "dangerousPathChars ''a/../b''
   \<and> validateFilePath ''a/../b'' (DefaultSecurityConfig sample_env) = Inr ''b''
   \<and> length (concat (replicate 131 ''./'') @ ''a'') > 260
   \<and> validateFilePath (concat (replicate 131 ''./'') @ ''a'') (DefaultSecurityConfig sample_env)
       = Inr ''a''"
  by code_simp


section \<open>Temporary files: creation and release\<close>


lemma Remove_cases:
  "Remove env p w = (Some ErrNotExist, w) \<and> files w p = None
   \<or> Remove env p w = (Some ErrPermission, w) \<and> files w p \<noteq> None \<and> remove_refused env p
   \<or> Remove env p w = (None, w\<lparr> files := (files w)(p := None) \<rparr>) \<and> files w p \<noteq> None
       \<and> \<not> remove_refused env p"
  by (auto simp: Remove_def split: option.splits)





lemma secureCleanup_spawned: "spawned (snd (secureCleanup env p k w)) = spawned w"
  using Remove_cases[of env p w] by (auto simp: secureCleanup_def)

lemma draw_name_fresh:
  "draw_name rnd prefix suffix fs attempt left = Some name \<Longrightarrow> fs name = None"
  by (induction rnd prefix suffix fs attempt left rule: draw_name.induct)
     (subst (asm) draw_name.simps, auto simp: Let_def split: if_splits)

lemma CreateTemp_result:
  "CreateTemp env dir pattern w = (Inr name, w1) \<Longrightarrow>
     files w name = None
     \<and> w1 = w\<lparr> files := (files w)(name \<mapsto> \<lparr> content = [], perm = and_not 384 (umask env) \<rparr>) \<rparr>"
  by (auto simp: CreateTemp_def Let_def split: if_splits prod.splits option.splits
           dest: draw_name_fresh)

lemma CreateTemp_error: "CreateTemp env dir pattern w = (Inl e, w1) \<Longrightarrow> w1 = w"
  by (auto simp: CreateTemp_def Let_def split: if_splits prod.splits option.splits)


lemma secureCreateTempFile_spawned:
  "spawned (snd (secureCreateTempFile env pattern config w)) = spawned w"
proof -
  obtain r w0 where c: "CreateTemp env (AllowedTempDir config) pattern w = (r, w0)"
    by (cases "CreateTemp env (AllowedTempDir config) pattern w")
  show ?thesis
  proof (cases r)
    case (Inl e)
    with c have "w0 = w" using CreateTemp_error by blast
    with c Inl show ?thesis
      by (simp add: secureCreateTempFile_def)
  next
    case (Inr n)
    from c Inr have w0:
        "w0 = w\<lparr> files := (files w)(n \<mapsto> \<lparr> content = [], perm = and_not 384 (umask env) \<rparr>) \<rparr>"
      using CreateTemp_result by blast
    from c Inr w0 Remove_cases[of env n w0] show ?thesis
      by (auto simp: secureCreateTempFile_def Chmod_def split: if_splits)
  qed
qed






section \<open>The adaptive encoder: first encode and output format\<close>



text \<open>
  C7, as the code has it. For a requested output format that is not empty and whose
  lower-case form is neither \<open>jpeg\<close> nor \<open>png\<close>, \<open>ProcessImage\<close> always returns an
  error. The format is looked at by the first encode only, after the input has been
  decoded: when decoding fails the result is the decoding error, and when decoding
  succeeds it is the wrapped error \<open>unsupported output format\<close> of
  \<open>encodeImageWithCompression\<close>.
\<close>

theorem ProcessImage_unsupported_format:
  assumes "OutputFormat options \<noteq> []"
      and "ToLower (OutputFormat options) \<noteq> ''jpeg''"
      and "ToLower (OutputFormat options) \<noteq> ''png''"
  shows "ProcessImage env cd w inp options =
     (case decodeImage env cd w inp of
        Inl err \<Rightarrow> Some (Inl (Wrapf ''failed to decode image: %w'' [] err))
      | Inr r \<Rightarrow> Some (Inl (Wrapf ''failed to encode image: %w'' []
                   (Errorf ''unsupported output format: %s'' [S (OutputFormat options)]))))"
proof -
  have f: "OutputFormat (ProcessImage_defaults env options) = OutputFormat options"
    using assms(1) by (simp add: ProcessImage_defaults_def Let_def)
  have "encodeImageWithCompression cd img (ProcessImage_defaults env options)
      = Inl (Errorf ''unsupported output format: %s'' [S (OutputFormat options)])" for img
    using assms f by (simp add: encodeImageWithCompression_def Let_def)
  then show ?thesis
    by (auto simp: ProcessImage_def ProcessImage_trace_def Let_def split: sum.splits)
qed

theorem ProcessImage_unsupported_format_witness:
  "OutputFormat (DefaultProcessImageOptions\<lparr> OutputFormat := ''gif'' \<rparr>) \<noteq> []
   \<and> ToLower ''gif'' \<noteq> ''jpeg'' \<and> ToLower ''gif'' \<noteq> ''png''
   \<and> ProcessImage sample_env sample_codecs sample_world (Buffer ''small'')
         (DefaultProcessImageOptions\<lparr> OutputFormat := ''gif'' \<rparr>)
       = Some (Inl (Wrapf ''failed to encode image: %w'' []
                 (Errorf ''unsupported output format: %s'' [S ''gif''])))"
proof -
  let ?o = "DefaultProcessImageOptions\<lparr> OutputFormat := ''gif'' \<rparr>"
  have o: "OutputFormat ?o = ''gif''" by simp
  have a: "OutputFormat ?o \<noteq> []" by simp
  have l: "ToLower ''gif'' \<noteq> ''jpeg''" "ToLower ''gif'' \<noteq> ''png''" by code_simp+
  then have b: "ToLower (OutputFormat ?o) \<noteq> ''jpeg''" "ToLower (OutputFormat ?o) \<noteq> ''png''"
    unfolding o by simp_all
  have d: "decodeImage sample_env sample_codecs sample_world (Buffer ''small'')
     = Inr (\<lparr> Dx = 5, Dy = 5, Pix = ''q'' \<rparr>, ''unknown'')"
    by code_simp
  from ProcessImage_unsupported_format[OF a b, of sample_env sample_codecs sample_world
      "Buffer ''small''"] d o a l
  show ?thesis by simp
qed

theorem ProcessImage_format_counterexample:
  "ProcessImage sample_env sample_codecs sample_world (Buffer ''zzz'')
       (DefaultProcessImageOptions\<lparr> OutputFormat := ''gif'' \<rparr>)
     = Some (Inl (Wrapf ''failed to decode image: %w'' [] (Errorf ''unsupported image format'' [])))"
  by code_simp


section \<open>The adaptive encoder: base scale factor\<close>

text \<open>
  What \<open>calculateScaleFactor\<close> computes: it steps at 8, 4 and 2 times 1024 * 1024
  pixels. A raster of 4000 by 3000 pixels gets 0.60, its first shrunk candidate is
  2400 by 1800, and with a budget that this candidate meets it is the raster whose
  encoding is returned.
\<close>

lemma calculateScaleFactor_steps:
  "calculateScaleFactor p =
     (if p \<ge> 8388608 then fl64 (6 / 10)
      else if p \<ge> 4194304 then fl64 (75 / 100)
      else if p \<ge> 2097152 then fl64 (85 / 100)
      else 1)"
  by (simp add: calculateScaleFactor_def)

lemma ProcessImage_twelve_megapixels:
  "calculateScaleFactor (wrap_int64 (4000 * 3000)) = fl64 (6 / 10)
   \<and> int_of_float64 (fmul (float64_of_int 4000) (fl64 (6 / 10))) = 2400
   \<and> int_of_float64 (fmul (float64_of_int 3000) (fl64 (6 / 10))) = 1800
   \<and> ProcessImage_trace sample_env sample_codecs sample_world (Buffer ''big'')
         (DefaultProcessImageOptions\<lparr> MaxSizeBytes := 26 \<rparr>)
       = Some (Inr (replicate 26 CHR ''p'', ''.png''),
               [\<lparr> Dx = 2400, Dy = 1800, Pix = ''r'' \<rparr>, \<lparr> Dx = 4000, Dy = 3000, Pix = ''p'' \<rparr>])"
  by code_simp

text \<open>
  C2. The base scale factor is 0.60 from 8 million pixels on, 0.75 from 4 million,
  0.85 from 2 million and 1 below; the comments beside the three cases of
  \<open>calculateScaleFactor\<close> name the same steps (800, 400 and 200 times ten thousand
  pixels). The constants of the code are \<open>8*1024*1024\<close>, \<open>4*1024*1024\<close> and
  \<open>2*1024*1024\<close>, so the code differs on the pixel counts in between. A raster of
  4000 by 2000 pixels has exactly 8 million pixels and gets 0.75, not 0.60; so does
  one of 8388607 pixels. At exactly 4 million pixels the factor is 0.85, not 0.75, and
  at exactly 2 million it is 1, not 0.85.
\<close>

theorem calculateScaleFactor_eight_million:
  "wrap_int64 (4000 * 2000) = 8000000
   \<and> calculateScaleFactor (wrap_int64 (4000 * 2000)) = fl64 (75 / 100)
   \<and> calculateScaleFactor (wrap_int64 (4000 * 2000)) \<noteq> fl64 (6 / 10)
   \<and> calculateScaleFactor 8388607 = fl64 (75 / 100)
   \<and> calculateScaleFactor 4000000 = fl64 (85 / 100)
   \<and> calculateScaleFactor 4000000 \<noteq> fl64 (75 / 100)
   \<and> calculateScaleFactor 2000000 = 1
   \<and> calculateScaleFactor 2000000 \<noteq> fl64 (85 / 100)"
  by code_simp


section \<open>Rounding to \<open>float64\<close>\<close>

lemma pow2_powi: "pow2 e = 2 powi e"
  by (simp add: pow2_def power_int_def inverse_eq_divide power_one_over)

lemma pow2_pos: "0 < pow2 e"
  by (simp add: pow2_powi)

lemma pow2_add: "pow2 (a + b) = pow2 a * pow2 b"
  by (simp add: pow2_powi power_int_add)

lemma pow2_mono: "a \<le> b \<Longrightarrow> pow2 a \<le> pow2 b"
  by (simp add: pow2_powi power_int_increasing)

lemma pow2_strict_mono: "a < b \<Longrightarrow> pow2 a < pow2 b"
  by (simp add: pow2_powi power_int_strict_increasing)

lemma pow2_nat: "0 \<le> e \<Longrightarrow> pow2 e = 2 ^ nat e"
  by (simp add: pow2_def)

lemma pow2_neg: "e \<le> 0 \<Longrightarrow> pow2 e = 1 / 2 ^ nat (- e)"
  by (cases "e = 0") (simp_all add: pow2_def)

lemma ilog2_bounds:
  assumes "0 < x"
  shows "pow2 (ilog2 x) \<le> x \<and> x < pow2 (ilog2 x + 1)"
proof (cases "1 \<le> x")
  case True
  define n where "n = \<lfloor>x\<rfloor>"
  have n: "0 < n" "of_int n \<le> x" "x < of_int n + 1"
    using True floor_correct[of x] by (simp_all add: n_def)
  from bitlen_bounds[OF n(1)] have b: "2 ^ nat (bitlen n - 1) \<le> n" "n < 2 ^ nat (bitlen n)"
    by simp_all
  have b1: "1 \<le> bitlen n"
    using n(1) by (auto simp: bitlen_alt_def)
  have e: "ilog2 x = bitlen n - 1" using True by (simp add: ilog2_def n_def)
  have "pow2 (bitlen n - 1) = of_int (2 ^ nat (bitlen n - 1))"
    using b1 by (simp add: pow2_nat)
  also have "\<dots> \<le> of_int n" using b(1) by (simp only: of_int_le_iff)
  finally have lo: "pow2 (bitlen n - 1) \<le> x" using n(2) by simp
  have "n + 1 \<le> 2 ^ nat (bitlen n)" using b(2) by simp
  then have "(of_int (n + 1) :: rat) \<le> of_int (2 ^ nat (bitlen n))" by (simp only: of_int_le_iff)
  then have "of_int n + 1 \<le> pow2 (bitlen n)" using b1 by (simp add: pow2_nat)
  with n(3) have hi: "x < pow2 (bitlen n - 1 + 1)" by simp
  from lo hi e show ?thesis by simp
next
  case False
  then have x1: "x < 1" by simp
  define y where "y = 1 / x"
  have y: "1 < y" "0 < y" using assms x1 by (simp_all add: y_def)
  define m where "m = \<lceil>y\<rceil> - 1"
  have m: "0 < m" "of_int m < y" "y \<le> of_int m + 1"
    using y by (simp_all add: m_def less_ceiling_iff ceiling_correct)
  from bitlen_bounds[OF m(1)] have b: "2 ^ nat (bitlen m - 1) \<le> m" "m < 2 ^ nat (bitlen m)"
    by simp_all
  have b1: "1 \<le> bitlen m"
    using m(1) by (auto simp: bitlen_alt_def)
  have e: "ilog2 x = - bitlen m" using False by (simp add: ilog2_def m_def y_def)
  have "m + 1 \<le> 2 ^ nat (bitlen m)" using b(2) by simp
  then have "(of_int (m + 1) :: rat) \<le> of_int (2 ^ nat (bitlen m))" by (simp only: of_int_le_iff)
  then have "y \<le> 2 ^ nat (bitlen m)" using m(3) by simp
  then have "1 / 2 ^ nat (bitlen m) \<le> x"
    using assms by (simp add: y_def field_simps)
  then have lo: "pow2 (- bitlen m) \<le> x" using b1 by (simp add: pow2_neg)
  have "(of_int (2 ^ nat (bitlen m - 1)) :: rat) \<le> of_int m" using b(1) by (simp only: of_int_le_iff)
  then have "(of_int (2 ^ nat (bitlen m - 1)) :: rat) < y" using m(2) by linarith
  then have "2 ^ nat (bitlen m - 1) < y" by simp
  then have "x < 1 / 2 ^ nat (bitlen m - 1)"
    using assms by (simp add: y_def field_simps)
  moreover have "pow2 (- bitlen m + 1) = 1 / 2 ^ nat (bitlen m - 1)"
    using b1 pow2_neg[of "- bitlen m + 1"] by simp
  ultimately have hi: "x < pow2 (- bitlen m + 1)" by simp
  from lo hi e show ?thesis by simp
qed

lemma ilog2_mono:
  assumes "0 < x" "x \<le> y"
  shows "ilog2 x \<le> ilog2 y"
proof (rule ccontr)
  assume "\<not> ilog2 x \<le> ilog2 y"
  then have "ilog2 y + 1 \<le> ilog2 x" by simp
  then have "pow2 (ilog2 y + 1) \<le> pow2 (ilog2 x)" by (rule pow2_mono)
  moreover have "y < pow2 (ilog2 y + 1)" using ilog2_bounds[of y] assms by simp
  moreover have "pow2 (ilog2 x) \<le> x" using ilog2_bounds[of x] assms by simp
  ultimately show False using assms by linarith
qed


lemma rne_cases:
  "rne m = \<lfloor>m\<rfloor> \<and> m - of_int \<lfloor>m\<rfloor> \<le> 1 / 2
   \<or> rne m = \<lfloor>m\<rfloor> + 1 \<and> 1 / 2 \<le> m - of_int \<lfloor>m\<rfloor>"
  unfolding rne_def Let_def by simp

lemma rne_bounds: "of_int (rne m) \<le> m + 1 / 2 \<and> m - 1 / 2 \<le> of_int (rne m)"
proof -
  have f: "of_int \<lfloor>m\<rfloor> \<le> m" "m < of_int \<lfloor>m\<rfloor> + 1"
    using floor_correct[of m] by simp_all
  from rne_cases[of m] show ?thesis
  proof
    assume h: "rne m = \<lfloor>m\<rfloor> \<and> m - of_int \<lfloor>m\<rfloor> \<le> 1 / 2"
    then have "of_int (rne m) = (of_int \<lfloor>m\<rfloor> :: rat)" by simp
    with h f show ?thesis by linarith
  next
    assume h: "rne m = \<lfloor>m\<rfloor> + 1 \<and> 1 / 2 \<le> m - of_int \<lfloor>m\<rfloor>"
    then have "of_int (rne m) = (of_int \<lfloor>m\<rfloor> :: rat) + 1" by simp
    with h f show ?thesis by linarith
  qed
qed

lemma rne_of_int: "rne (of_int n) = n"
  by (simp add: rne_def)

lemma rne_mono:
  assumes "a \<le> b"
  shows "rne a \<le> rne b"
proof -
  have fab: "\<lfloor>a\<rfloor> \<le> \<lfloor>b\<rfloor>" using assms by (rule floor_mono)
  have ra: "rne a \<le> \<lfloor>a\<rfloor> + 1" using rne_cases[of a] by linarith
  have rb: "\<lfloor>b\<rfloor> \<le> rne b" using rne_cases[of b] by linarith
  show ?thesis
  proof (cases "\<lfloor>a\<rfloor> < \<lfloor>b\<rfloor>")
    case True
    with ra rb show ?thesis by linarith
  next
    case False
    with fab have eq: "\<lfloor>a\<rfloor> = \<lfloor>b\<rfloor>" by simp
    define f where "f = \<lfloor>b\<rfloor>"
    define da where "da = a - of_int f"
    define db where "db = b - of_int f"
    have d: "da \<le> db" using assms by (simp add: da_def db_def)
    have A: "rne a = (if da < 1 / 2 then f else if 1 / 2 < da then f + 1
                       else if even f then f else f + 1)"
      unfolding rne_def Let_def da_def f_def eq by simp
    have B: "rne b = (if db < 1 / 2 then f else if 1 / 2 < db then f + 1
                       else if even f then f else f + 1)"
      unfolding rne_def Let_def db_def f_def by simp
    consider "db < 1 / 2" | "1 / 2 < db" | "db = 1 / 2" by linarith
    then show ?thesis
    proof cases
      case 1
      with d have "da < 1 / 2" by simp
      with 1 A B show ?thesis by simp
    next
      case 2
      then have "rne b = f + 1" using B by simp
      moreover have "rne a \<le> f + 1" using A by simp
      ultimately show ?thesis by simp
    next
      case 3
      show ?thesis
      proof (cases "da < 1 / 2")
        case True
        then have "rne a = f" using A by simp
        moreover have "f \<le> rne b" using B by simp
        ultimately show ?thesis by simp
      next
        case False
        with d 3 have "da = db" by simp
        with A B show ?thesis by simp
      qed
    qed
  qed
qed

lemma fl_pos_range:
  assumes "0 < x"
  shows "pow2 (ilog2 x) \<le> fl_pos x \<and> fl_pos x \<le> pow2 (ilog2 x + 1)"
proof -
  define e where "e = ilog2 x"
  define u where "u = pow2 (e - 52)"
  have u: "0 < u" by (simp add: u_def pow2_pos)
  have pe: "pow2 e = 2 ^ 52 * u"
    using pow2_add[of 52 "e - 52"] by (simp add: u_def pow2_nat)
  have pe1: "pow2 (e + 1) = 2 ^ 53 * u"
  proof -
    have "pow2 (e + 1) = pow2 (53 + (e - 52))" by (rule arg_cong[where f = pow2]) simp
    also have "\<dots> = pow2 53 * pow2 (e - 52)" by (rule pow2_add)
    also have "pow2 53 = 2 ^ 53" by (simp add: pow2_nat)
    finally show ?thesis unfolding u_def .
  qed
  from ilog2_bounds[OF assms] have b: "2 ^ 52 * u \<le> x" "x < 2 ^ 53 * u"
    unfolding e_def[symmetric] pe pe1 by simp_all
  have lo: "of_int (2 ^ 52) \<le> x / u" using b(1) u by (simp add: field_simps)
  have hi: "x / u \<le> of_int (2 ^ 53)" using b(2) u by (simp add: field_simps)
  have "rne (of_int (2 ^ 52)) \<le> rne (x / u)" using lo by (rule rne_mono)
  then have r1: "2 ^ 52 \<le> rne (x / u)" by (simp only: rne_of_int)
  have "rne (x / u) \<le> rne (of_int (2 ^ 53))" using hi by (rule rne_mono)
  then have r2: "rne (x / u) \<le> 2 ^ 53" by (simp only: rne_of_int)
  have f: "fl_pos x = of_int (rne (x / u)) * u"
    by (simp add: fl_pos_def Let_def u_def e_def)
  have "(of_int (2 ^ 52) :: rat) \<le> of_int (rne (x / u))" using r1 by (simp only: of_int_le_iff)
  then have "2 ^ 52 * u \<le> of_int (rne (x / u)) * u" using u by simp
  moreover have "(of_int (rne (x / u)) :: rat) \<le> of_int (2 ^ 53)"
    using r2 by (simp only: of_int_le_iff)
  then have "of_int (rne (x / u)) * u \<le> 2 ^ 53 * u" using u by simp
  ultimately show ?thesis unfolding e_def[symmetric] pe pe1 f by simp
qed

lemma fl_pos_mono:
  assumes "0 < x" "x \<le> y"
  shows "fl_pos x \<le> fl_pos y"
proof -
  have y: "0 < y" using assms by simp
  have le: "ilog2 x \<le> ilog2 y" using assms by (rule ilog2_mono)
  show ?thesis
  proof (cases "ilog2 x = ilog2 y")
    case True
    define u where "u = pow2 (ilog2 y - 52)"
    have u: "0 < u" by (simp add: u_def pow2_pos)
    have "x / u \<le> y / u" using assms(2) u by (simp add: divide_right_mono)
    then have "rne (x / u) \<le> rne (y / u)" by (rule rne_mono)
    then have "(of_int (rne (x / u)) :: rat) \<le> of_int (rne (y / u))" by (simp only: of_int_le_iff)
    then have "of_int (rne (x / u)) * u \<le> of_int (rne (y / u)) * u" using u by simp
    then show ?thesis by (simp add: fl_pos_def Let_def u_def True)
  next
    case False
    with le have "ilog2 x + 1 \<le> ilog2 y" by simp
    then have "pow2 (ilog2 x + 1) \<le> pow2 (ilog2 y)" by (rule pow2_mono)
    with fl_pos_range[OF assms(1)] fl_pos_range[OF y] show ?thesis by linarith
  qed
qed

lemma fl_pos_pos: "0 < x \<Longrightarrow> 0 < fl_pos x"
  using fl_pos_range[of x] pow2_pos[of "ilog2 x"] by linarith

lemma fl64_mono:
  assumes "x \<le> y"
  shows "fl64 x \<le> fl64 y"
proof -
  consider (neg) "y < 0" | (zero) "x < 0" "y = 0" | (mixed) "x < 0" "0 < y"
    | (z0) "x = 0" "y = 0" | (zp) "x = 0" "0 < y" | (pos) "0 < x"
    using assms by linarith
  then show ?thesis
  proof cases
    case neg
    then have "0 < - y" "- y \<le> - x" using assms by simp_all
    then have "fl_pos (- y) \<le> fl_pos (- x)" by (rule fl_pos_mono)
    with neg assms show ?thesis by (simp add: fl64_def)
  next
    case zero
    then have "0 < fl_pos (- x)" by (simp add: fl_pos_pos)
    with zero show ?thesis by (simp add: fl64_def)
  next
    case mixed
    then have "0 < fl_pos (- x)" "0 < fl_pos y" by (simp_all add: fl_pos_pos)
    with mixed show ?thesis by (simp add: fl64_def)
  next
    case z0
    then show ?thesis by simp
  next
    case zp
    then have "0 < fl_pos y" by (simp add: fl_pos_pos)
    with zp show ?thesis by (simp add: fl64_def)
  next
    case pos
    with assms have "fl_pos x \<le> fl_pos y" by (intro fl_pos_mono)
    with pos assms show ?thesis by (simp add: fl64_def)
  qed
qed

lemma fl_pos_exact:
  assumes "0 < x" and "x = of_int n * pow2 k" and "ilog2 x - 52 \<le> k"
  shows "fl_pos x = x"
proof -
  define u where "u = pow2 (ilog2 x - 52)"
  have u: "0 < u" by (simp add: u_def pow2_pos)
  define j where "j = k - (ilog2 x - 52)"
  have j: "0 \<le> j" using assms(3) by (simp add: j_def)
  have "pow2 k = pow2 j * u" using pow2_add[of j "ilog2 x - 52"] by (simp add: j_def u_def)
  then have "x / u = of_int n * pow2 j" using assms(2) u by simp
  also have "\<dots> = of_int (n * 2 ^ nat j)" using j by (simp add: pow2_nat)
  finally have "rne (x / u) = n * 2 ^ nat j" by (simp only: rne_of_int)
  then have "of_int (rne (x / u)) * u = x / u * u"
    using \<open>x / u = of_int n * pow2 j\<close> j by (simp add: pow2_nat)
  then show ?thesis using u by (simp add: fl_pos_def Let_def u_def)
qed

lemma fl64_of_int:
  assumes "0 \<le> n" "n < 2 ^ 53"
  shows "fl64 (of_int n) = of_int n"
proof (cases "n = 0")
  case True
  then show ?thesis by (simp add: fl64_def)
next
  case False
  with assms have p: "(0::rat) < of_int n" by simp
  have "pow2 (ilog2 (of_int n)) \<le> of_int n" using ilog2_bounds[OF p] by simp
  also have "(of_int n :: rat) < of_int (2 ^ 53)" using assms(2) by (simp only: of_int_less_iff)
  also have "(of_int (2 ^ 53) :: rat) = pow2 53" by (simp add: pow2_nat)
  finally have "ilog2 (of_int n) < 53"
    using pow2_mono[of 53 "ilog2 (of_int n)"] by (cases "ilog2 (rat_of_int n) < 53") auto
  then have "ilog2 (of_int n) - 52 \<le> 0" by simp
  then have "fl_pos (of_int n) = of_int n"
    using fl_pos_exact[OF p, of n 0] by (simp add: pow2_def)
  with p show ?thesis by (simp add: fl64_def)
qed

lemma fl64_half_int:
  assumes "0 \<le> n" "n < 2 ^ 52"
  shows "fl64 (of_int n + 1 / 2) = of_int n + 1 / 2"
proof -
  let ?x = "of_int n + 1 / 2 :: rat"
  have p: "0 < ?x" using assms by simp
  have x: "?x = of_int (2 * n + 1) * pow2 (- 1)" by (simp add: pow2_def)
  have "pow2 (ilog2 ?x) \<le> ?x" using ilog2_bounds[OF p] by simp
  also have "of_int n + 1 \<le> (of_int (2 ^ 52) :: rat)"
    using assms(2) by (metis of_int_1 of_int_add of_int_le_iff zless_imp_add1_zle)
  then have "?x < of_int (2 ^ 52)" by simp
  also have "(of_int (2 ^ 52) :: rat) = pow2 52" by (simp add: pow2_nat)
  finally have "ilog2 ?x < 52"
    using pow2_mono[of 52 "ilog2 ?x"] by (cases "ilog2 ?x < 52") auto
  then have "ilog2 ?x - 52 \<le> - 1" by simp
  then have "fl_pos ?x = ?x" using fl_pos_exact[OF p x] by simp
  with p show ?thesis by (simp add: fl64_def)
qed

lemma fl64_upper:
  assumes "0 \<le> x"
  shows "fl64 x \<le> x * (1 + 1 / 2 ^ 53)"
proof (cases "x = 0")
  case True
  then show ?thesis by (simp add: fl64_def)
next
  case False
  with assms have p: "0 < x" by simp
  define u where "u = pow2 (ilog2 x - 52)"
  have u: "0 < u" by (simp add: u_def pow2_pos)
  have "pow2 (ilog2 x) = 2 ^ 52 * u"
    using pow2_add[of 52 "ilog2 x - 52"] by (simp add: u_def pow2_nat)
  with ilog2_bounds[OF p] have b: "2 ^ 52 * u \<le> x" by simp
  have "of_int (rne (x / u)) \<le> x / u + 1 / 2" using rne_bounds[of "x / u"] by simp
  then have "of_int (rne (x / u)) * u \<le> (x / u + 1 / 2) * u"
    using u by (simp only: mult_le_cancel_right_pos)
  also have "\<dots> = x + u / 2" using u by (simp add: field_simps)
  also have "\<dots> \<le> x + x / 2 ^ 53" using b by (simp add: field_simps)
  finally have "fl_pos x \<le> x + x / 2 ^ 53" by (simp add: fl_pos_def Let_def u_def)
  with p show ?thesis by (simp add: fl64_def field_simps)
qed

section \<open>The resize loop\<close>

lemma fl64_one: "fl64 1 = 1"
  using fl64_of_int[of 1] by simp

lemma fl64_nonpos: "x \<le> 0 \<Longrightarrow> fl64 x \<le> 0"
  using fl64_mono[of x 0] by (simp add: fl64_def)

lemma fl64_nonneg: "0 \<le> x \<Longrightarrow> 0 \<le> fl64 x"
  using fl64_mono[of 0 x] by (simp add: fl64_def)

lemma minFactor_value: "minFactor = 3602879701896397 / 36028797018963968"
  by code_simp

lemma decay_value: "fl64 (8 / 10) = 3602879701896397 / 4503599627370496"
  by code_simp

lemma scaled_dim_le:
  assumes "0 \<le> W" "W < 2 ^ 53" "t \<le> 1"
  shows "int_of_float64 (fmul (float64_of_int W) t) \<le> W"
proof -
  have w: "float64_of_int W = of_int W"
    using assms by (simp add: float64_of_int_def fl64_of_int)
  have "of_int W * t \<le> (of_int W :: rat)"
    using assms by (simp add: mult_left_le)
  then have "fl64 (of_int W * t) \<le> fl64 (of_int W)" by (rule fl64_mono)
  then have x: "fmul (float64_of_int W) t \<le> of_int W"
    using assms by (simp add: fmul_def w fl64_of_int)
  show ?thesis
  proof (cases "0 \<le> fmul (float64_of_int W) t")
    case True
    have "\<lfloor>fmul (float64_of_int W) t\<rfloor> \<le> \<lfloor>(of_int W :: rat)\<rfloor>" using x by (rule floor_mono)
    with True show ?thesis by (simp add: int_of_float64_def)
  next
    case False
    then have "\<lceil>fmul (float64_of_int W) t\<rceil> \<le> 0" by (simp add: ceiling_le_iff)
    moreover have "int_of_float64 (fmul (float64_of_int W) t) = \<lceil>fmul (float64_of_int W) t\<rceil>"
      using False by (simp add: int_of_float64_def)
    ultimately show ?thesis using assms(1) by linarith
  qed
qed

lemma keep_aspect_le:
  assumes "1 \<le> d" "d \<le> b" "1 \<le> a" "a * b < 2 ^ 52"
  shows "keep_aspect d a b \<le> a"
proof -
  have b1: "1 \<le> b" using assms by simp
  have "a * 1 \<le> a * b" using b1 assms(3) by (intro mult_left_mono) simp_all
  then have a: "a < 2 ^ 52" using assms(4) by simp
  have "1 * b \<le> a * b" using b1 assms(3) by (intro mult_right_mono) simp_all
  then have b: "b < 2 ^ 52" using assms(4) by simp
  have "d * a \<le> b * a" using assms by (intro mult_right_mono) simp_all
  then have da: "d * a < 2 ^ 52" using assms(4) by (simp add: mult.commute)
  have fa: "float64_of_int a = of_int a" using a assms(3)
    by (simp add: float64_of_int_def fl64_of_int)
  have fb: "float64_of_int b = of_int b" using b b1
    by (simp add: float64_of_int_def fl64_of_int)
  have fd: "float64_of_int d = of_int d" using b assms(1,2)
    by (simp add: float64_of_int_def fl64_of_int)
  have "0 \<le> d * a" using assms by simp
  then have m: "fmul (float64_of_int d) (float64_of_int a) = of_int (d * a)"
    using da fl64_of_int[of "d * a"] by (simp add: fmul_def fa fd)
  have "(of_int (d * a) :: rat) \<le> of_int (b * a)"
    using \<open>d * a \<le> b * a\<close> by (simp only: of_int_le_iff)
  then have "(of_int (d * a) :: rat) / of_int b \<le> of_int a"
    using b1 by (simp add: field_simps)
  then have "fl64 (of_int (d * a) / of_int b) \<le> fl64 (of_int a)" by (rule fl64_mono)
  then have tmp: "fdiv (fmul (float64_of_int d) (float64_of_int a)) (float64_of_int b) \<le> of_int a"
    using a assms(3) by (simp add: fdiv_def m fb fl64_of_int)
  define tmp where "tmp = fdiv (fmul (float64_of_int d) (float64_of_int a)) (float64_of_int b)"
  have "tmp + 1 / 2 \<le> of_int a + 1 / 2" using tmp by (simp add: tmp_def)
  then have "fl64 (tmp + 1 / 2) \<le> fl64 (of_int a + 1 / 2)" by (rule fl64_mono)
  then have "fadd tmp (1 / 2) \<le> of_int a + 1 / 2"
    using a assms(3) by (simp add: fadd_def fl64_half_int)
  then have "\<lfloor>fadd tmp (1 / 2)\<rfloor> \<le> \<lfloor>(of_int a + 1 / 2 :: rat)\<rfloor>" by (rule floor_mono)
  also have "\<lfloor>(of_int a + 1 / 2 :: rat)\<rfloor> = a" by (simp add: floor_unique)
  finally have f: "\<lfloor>fadd tmp (1 / 2)\<rfloor> \<le> a" .
  have "max 1 (of_int \<lfloor>fadd tmp (1 / 2)\<rfloor>) = (of_int (max 1 \<lfloor>fadd tmp (1 / 2)\<rfloor>) :: rat)"
    by (simp add: max_def)
  then have "int_of_float64 (max 1 (of_int \<lfloor>fadd tmp (1 / 2)\<rfloor>)) = max 1 \<lfloor>fadd tmp (1 / 2)\<rfloor>"
    by (simp add: int_of_float64_def)
  then show ?thesis using f assms(3) by (simp add: keep_aspect_def Let_def tmp_def)
qed

lemma Resize_dims:
  assumes "0 \<le> Dx img" "0 \<le> Dy img" "Dx img * Dy img < 2 ^ 52"
      and "width \<le> Dx img" "height \<le> Dy img"
  shows "Dx (Resize cd img width height) \<le> Dx img \<and> Dy (Resize cd img width height) \<le> Dy img"
proof (cases "width < 0 \<or> height < 0 \<or> (width = 0 \<and> height = 0) \<or> Dx img \<le> 0 \<or> Dy img \<le> 0")
  case True
  then have "Resize cd img width height = empty_image" by (auto simp: Resize_def)
  with assms show ?thesis by (simp add: empty_image_def)
next
  case False
  then have p: "0 \<le> width" "0 \<le> height" "\<not> (width = 0 \<and> height = 0)" "1 \<le> Dx img" "1 \<le> Dy img"
    by auto
  define dstW where "dstW = (if width = 0 then keep_aspect height (Dx img) (Dy img) else width)"
  define dstH where "dstH = (if height = 0 then keep_aspect dstW (Dy img) (Dx img) else height)"
  have w: "dstW \<le> Dx img"
  proof (cases "width = 0")
    case True
    with p have "1 \<le> height" by simp
    from keep_aspect_le[OF this assms(5) p(4) assms(3)] True show ?thesis by (simp add: dstW_def)
  next
    case False
    with assms show ?thesis by (simp add: dstW_def)
  qed
  have h: "dstH \<le> Dy img"
  proof (cases "height = 0")
    case True
    with p have w1: "1 \<le> width" "dstW = width" by (simp_all add: dstW_def)
    have "Dy img * Dx img < 2 ^ 52" using assms(3) by (simp add: mult.commute)
    from keep_aspect_le[OF w1(1) assms(4) p(5) this] True w1 show ?thesis by (simp add: dstH_def)
  next
    case False
    with assms show ?thesis by (simp add: dstH_def)
  qed
  have c1: "\<not> (width < 0 \<or> height < 0)" and c2: "\<not> (width = 0 \<and> height = 0)"
    and c3: "\<not> (Dx img \<le> 0 \<or> Dy img \<le> 0)"
    using False by auto
  have "Resize cd img width height =
      (if Dx img = dstW \<and> Dy img = dstH then img
       else \<lparr> Dx = dstW, Dy = dstH, Pix = lanczos cd img dstW dstH \<rparr>)"
    by (simp only: Resize_def Let_def dstW_def dstH_def c1 c2 c3 if_False)
  then have "Resize cd img width height = img
      \<or> Resize cd img width height = \<lparr> Dx = dstW, Dy = dstH, Pix = lanczos cd img dstW dstH \<rparr>"
    by (cases "Dx img = dstW \<and> Dy img = dstH") (simp_all only: if_True if_False simp_thms)
  with w h show ?thesis by auto
qed

lemma candidate_dims:
  assumes "0 \<le> Dx img" "0 \<le> Dy img" "Dx img * Dy img < 2 ^ 52" "t \<le> 1"
  shows "Dx (candidate cd img t) \<le> Dx img \<and> Dy (candidate cd img t) \<le> Dy img"
proof (cases "Dx img = 0 \<or> Dy img = 0")
  case True
  then have "Resize cd img a b = empty_image \<or> Resize cd img a b = img" for a b
    by (auto simp: Resize_def)
  then have "candidate cd img t = empty_image \<or> candidate cd img t = img"
    unfolding candidate_def by blast
  with assms show ?thesis by (auto simp: empty_image_def)
next
  case False
  with assms have p: "1 \<le> Dx img" "1 \<le> Dy img" by simp_all
  have "Dx img * 1 \<le> Dx img * Dy img" using p by (intro mult_left_mono) simp_all
  then have a: "Dx img < 2 ^ 53" using assms(3) by simp
  have "1 * Dy img \<le> Dx img * Dy img" using p by (intro mult_right_mono) simp_all
  then have b: "Dy img < 2 ^ 53" using assms(3) by simp
  show ?thesis unfolding candidate_def
    by (intro Resize_dims assms scaled_dim_le a b)
qed

lemma next_factor_le:
  assumes "minFactor \<le> c" "s \<le> 1"
  shows "fmul (if fmul c s > 1 then 1 else fmul c s) (fl64 (8 / 10)) \<le> 81 / 100 * c"
proof -
  have c: "0 < c" using assms(1) by (simp add: minFactor_value)
  define t where "t = (if fmul c s > 1 then 1 else fmul c s)"
  have "c * s \<le> c" using c assms(2) by simp
  then have "fmul c s \<le> fl64 c" unfolding fmul_def by (rule fl64_mono)
  also have "fl64 c \<le> c * (1 + 1 / 2 ^ 53)" using c by (intro fl64_upper) simp
  finally have t0: "fmul c s \<le> c * (1 + 1 / 2 ^ 53)" .
  have "t \<le> fmul c s" by (simp add: t_def)
  with t0 have t: "t \<le> c * (1 + 1 / 2 ^ 53)" by simp
  have d: "(0::rat) \<le> 3602879701896397 / 4503599627370496" by simp
  have "t * (3602879701896397 / 4503599627370496)
      \<le> c * (1 + 1 / 2 ^ 53) * (3602879701896397 / 4503599627370496)"
    using t d by (rule mult_right_mono)
  then have "fl64 (t * (3602879701896397 / 4503599627370496))
      \<le> fl64 (c * (1 + 1 / 2 ^ 53) * (3602879701896397 / 4503599627370496))"
    by (rule fl64_mono)
  also have "\<dots> \<le> c * (1 + 1 / 2 ^ 53) * (3602879701896397 / 4503599627370496) * (1 + 1 / 2 ^ 53)"
    using c by (intro fl64_upper) simp
  also have "\<dots> = c * ((1 + 1 / 2 ^ 53) * (3602879701896397 / 4503599627370496) * (1 + 1 / 2 ^ 53))"
    by (simp only: mult.assoc)
  also have "\<dots> \<le> 81 / 100 * c"
    using c by simp
  finally have "fl64 (t * (3602879701896397 / 4503599627370496)) \<le> 81 / 100 * c" .
  then have "fmul t (fl64 (8 / 10)) \<le> 81 / 100 * c"
    by (simp only: fmul_def decay_value)
  then show ?thesis unfolding t_def .
qed

lemma calculateScaleFactor_le_one: "calculateScaleFactor p \<le> 1"
proof -
  have "fl64 (6 / 10) \<le> 1" "fl64 (75 / 100) \<le> 1" "fl64 (85 / 100) \<le> 1" by code_simp+
  then show ?thesis by (simp add: calculateScaleFactor_def)
qed

lemma calculateUserScaleFactor_le_one: "calculateUserScaleFactor w h mw mh \<le> 1"
proof -
  have "(if r > 1 then 1 else r) \<le> (1::rat)" for r by simp
  then show ?thesis unfolding calculateUserScaleFactor_def Let_def by (simp only: split: if_splits) simp
qed

lemma resize_loop_exit:
  "\<not> minFactor \<le> c \<Longrightarrow> resize_loop cd img options s c lastR enc = Some (Inr lastR, enc)"
  by (subst resize_loop.simps) simp

lemma resize_loop_step:
  fixes c s :: float64
  assumes "minFactor \<le> c"
  defines "t \<equiv> (if fmul c s > 1 then 1 else fmul c s)"
  shows "resize_loop cd img options s c lastR enc =
     (case encodeImageWithCompression cd (candidate cd img t) options of
        Inl err \<Rightarrow> Some (Inl (Wrapf ''failed to encode scaled image: %w'' [] err),
                         candidate cd img t # enc)
      | Inr r \<Rightarrow>
          if int (length (fst r)) \<le> MaxSizeBytes options
            then Some (Inr r, candidate cd img t # enc)
          else resize_loop cd img options s (fmul t (fl64 (8 / 10))) r (candidate cd img t # enc))"
  by (subst resize_loop.simps, simp only: assms(1) if_True Let_def t_def candidate_def)

lemma resize_loop_bounded:
  assumes s: "s \<le> 1"
  shows "j \<le> 11 \<Longrightarrow> c \<le> (81 / 100) ^ (11 - j) \<Longrightarrow>
     \<exists>res trace. resize_loop cd img options s c lastR enc = Some (res, trace @ enc)
       \<and> length trace \<le> j
       \<and> (\<forall>i \<in> set trace. \<exists>t. t \<le> 1 \<and> i = candidate cd img t)
       \<and> (enc \<noteq> [] \<and> encodeImageWithCompression cd (hd enc) options = Inr lastR \<longrightarrow>
            (\<forall>r. res = Inr r \<longrightarrow>
               encodeImageWithCompression cd (hd (trace @ enc)) options = Inr r))
       \<and> ((\<forall>t. \<exists>r. encodeImageWithCompression cd (candidate cd img t) options = Inr r
                   \<and> MaxSizeBytes options < int (length (fst r))) \<longrightarrow>
            (\<exists>r. res = Inr r))"
proof (induction j arbitrary: c lastR enc)
  case 0
  have "(81 / 100 :: rat) ^ 11 < minFactor" by code_simp
  with 0 have "\<not> minFactor \<le> c" by simp
  then have "resize_loop cd img options s c lastR enc = Some (Inr lastR, [] @ enc)"
    by (simp add: resize_loop_exit)
  then show ?case by (intro exI[of _ "Inr lastR"] exI[of _ "[]"]) simp
next
  case (Suc j)
  show ?case
  proof (cases "minFactor \<le> c")
    case False
    then have "resize_loop cd img options s c lastR enc = Some (Inr lastR, [] @ enc)"
      by (simp add: resize_loop_exit)
    then show ?thesis by (intro exI[of _ "Inr lastR"] exI[of _ "[]"]) simp
  next
    case True
    define t where "t = (if fmul c s > 1 then 1 else fmul c s)"
    define cand where "cand = candidate cd img t"
    have t1: "t \<le> 1" by (simp add: t_def)
    note step = resize_loop_step[OF True, of cd img options s lastR enc, folded t_def cand_def]
    show ?thesis
    proof (cases "encodeImageWithCompression cd cand options")
      case (Inl err)
      let ?res = "Inl (Wrapf ''failed to encode scaled image: %w'' [] err) :: error + bytes \<times> string"
      have "resize_loop cd img options s c lastR enc = Some (?res, [cand] @ enc)"
        using step Inl by simp
      moreover have "\<not> (\<forall>t. \<exists>r. encodeImageWithCompression cd (candidate cd img t) options = Inr r
                   \<and> MaxSizeBytes options < int (length (fst r)))"
        using Inl unfolding cand_def by (metis sum.distinct(1))
      ultimately show ?thesis using t1 cand_def
        by (intro exI[of _ ?res] exI[of _ "[cand]"]) auto
    next
      case (Inr r)
      show ?thesis
      proof (cases "int (length (fst r)) \<le> MaxSizeBytes options")
        case True
        have "resize_loop cd img options s c lastR enc = Some (Inr r, [cand] @ enc)"
          using step Inr True by simp
        moreover have "\<not> (\<forall>t. \<exists>r. encodeImageWithCompression cd (candidate cd img t) options = Inr r
                   \<and> MaxSizeBytes options < int (length (fst r)))"
          using Inr True unfolding cand_def
          by (metis sum.inject(2) not_less)
        ultimately show ?thesis using t1 cand_def Inr
          by (intro exI[of _ "Inr r"] exI[of _ "[cand]"]) auto
      next
        case False
        define c' where "c' = fmul t (fl64 (8 / 10))"
        have st: "resize_loop cd img options s c lastR enc
            = resize_loop cd img options s c' r (cand # enc)"
          using step Inr False by (simp add: c'_def)
        have j: "j \<le> 11" "11 - j = Suc (11 - Suc j)" using Suc.prems(1) by simp_all
        have "c' \<le> 81 / 100 * c"
          unfolding c'_def t_def using True s by (rule next_factor_le)
        also have "\<dots> \<le> 81 / 100 * (81 / 100) ^ (11 - Suc j)"
          using Suc.prems(2) by simp
        also have "\<dots> = (81 / 100) ^ (11 - j)" unfolding j(2) by simp
        finally have c': "c' \<le> (81 / 100) ^ (11 - j)" .
        from Suc.IH[OF j(1) c', of r "cand # enc"] obtain res trace where
          ih: "resize_loop cd img options s c' r (cand # enc) = Some (res, trace @ cand # enc)"
            "length trace \<le> j"
            "\<forall>i \<in> set trace. \<exists>t. t \<le> 1 \<and> i = candidate cd img t"
            "cand # enc \<noteq> [] \<and> encodeImageWithCompression cd (hd (cand # enc)) options = Inr r \<longrightarrow>
               (\<forall>r'. res = Inr r' \<longrightarrow>
                  encodeImageWithCompression cd (hd (trace @ cand # enc)) options = Inr r')"
            "(\<forall>t. \<exists>r. encodeImageWithCompression cd (candidate cd img t) options = Inr r
                   \<and> MaxSizeBytes options < int (length (fst r))) \<longrightarrow> (\<exists>r. res = Inr r)"
          by blast
        have 1: "resize_loop cd img options s c lastR enc = Some (res, (trace @ [cand]) @ enc)"
          using st ih(1) by simp
        have 2: "length (trace @ [cand]) \<le> Suc j" using ih(2) by simp
        have 3: "\<forall>i \<in> set (trace @ [cand]). \<exists>t. t \<le> 1 \<and> i = candidate cd img t"
          using ih(3) t1 cand_def by auto
        have 4: "\<forall>r'. res = Inr r' \<longrightarrow>
                  encodeImageWithCompression cd (hd ((trace @ [cand]) @ enc)) options = Inr r'"
          using ih(4) Inr by simp
        from 1 2 3 4 ih(5) show ?thesis
          by (intro exI[of _ res] exI[of _ "trace @ [cand]"]) blast
      qed
    qed
  qed
qed

lemma scaleFactor_le_one:
  "(if MaxWidth options > 0 \<or> MaxHeight options > 0 then
      let userScaleFactor = calculateUserScaleFactor ow oh (MaxWidth options) (MaxHeight options)
      in if userScaleFactor < calculateScaleFactor px then userScaleFactor
         else calculateScaleFactor px
    else calculateScaleFactor px) \<le> 1"
  using calculateScaleFactor_le_one[of px]
    calculateUserScaleFactor_le_one[of ow oh "MaxWidth options" "MaxHeight options"]
  by (simp add: Let_def)

lemma ProcessImage_trace_decoded:
  assumes "decodeImage env cd w inp = Inr (img, hint)"
  shows "\<exists>s. s \<le> 1 \<and> ProcessImage_trace env cd w inp options =
     (case encodeImageWithCompression cd img (ProcessImage_defaults env options) of
        Inl err \<Rightarrow> Some (Inl (Wrapf ''failed to encode image: %w'' [] err), [img])
      | Inr r \<Rightarrow>
          if int (length (fst r)) \<le> MaxSizeBytes (ProcessImage_defaults env options)
            then Some (Inr r, [img])
          else resize_loop cd img (ProcessImage_defaults env options) s 1 r [img])"
proof -
  define opts where "opts = ProcessImage_defaults env options"
  define s where "s =
    (if MaxWidth opts > 0 \<or> MaxHeight opts > 0 then
      let userScaleFactor = calculateUserScaleFactor (Dx img) (Dy img) (MaxWidth opts) (MaxHeight opts)
      in if userScaleFactor < calculateScaleFactor (wrap_int64 (Dx img * Dy img)) then userScaleFactor
         else calculateScaleFactor (wrap_int64 (Dx img * Dy img))
    else calculateScaleFactor (wrap_int64 (Dx img * Dy img)))"
  have "s \<le> 1" unfolding s_def by (rule scaleFactor_le_one)
  moreover have "ProcessImage_trace env cd w inp options =
     (case encodeImageWithCompression cd img opts of
        Inl err \<Rightarrow> Some (Inl (Wrapf ''failed to encode image: %w'' [] err), [img])
      | Inr r \<Rightarrow>
          if int (length (fst r)) \<le> MaxSizeBytes opts
            then Some (Inr r, [img])
          else resize_loop cd img opts s 1 r [img])"
    unfolding ProcessImage_trace_def Let_def assms opts_def s_def by simp
  ultimately show ?thesis unfolding opts_def by blast
qed

lemma ProcessImage_trace_run:
  assumes "decodeImage env cd w inp = Inr (img, hint)"
  shows "\<exists>res trace. ProcessImage_trace env cd w inp options = Some (res, trace @ [img])
       \<and> length trace \<le> 11
       \<and> (\<forall>i \<in> set trace. \<exists>t. t \<le> 1 \<and> i = candidate cd img t)
       \<and> (\<forall>r. res = Inr r \<longrightarrow>
             encodeImageWithCompression cd (hd (trace @ [img])) (ProcessImage_defaults env options)
               = Inr r)
       \<and> ((\<exists>r. encodeImageWithCompression cd img (ProcessImage_defaults env options) = Inr r)
           \<and> (\<forall>t. \<exists>r. encodeImageWithCompression cd (candidate cd img t)
                         (ProcessImage_defaults env options) = Inr r
                   \<and> MaxSizeBytes (ProcessImage_defaults env options) < int (length (fst r))) \<longrightarrow>
            (\<exists>r. res = Inr r))"
proof -
  define opts where "opts = ProcessImage_defaults env options"
  from ProcessImage_trace_decoded[OF assms, of options] obtain s where s: "s \<le> 1"
    and eq: "ProcessImage_trace env cd w inp options =
     (case encodeImageWithCompression cd img opts of
        Inl err \<Rightarrow> Some (Inl (Wrapf ''failed to encode image: %w'' [] err), [img])
      | Inr r \<Rightarrow>
          if int (length (fst r)) \<le> MaxSizeBytes opts
            then Some (Inr r, [img])
          else resize_loop cd img opts s 1 r [img])"
    unfolding opts_def by blast
  show ?thesis unfolding opts_def[symmetric]
  proof (cases "encodeImageWithCompression cd img opts")
    case (Inl err)
    let ?res = "Inl (Wrapf ''failed to encode image: %w'' [] err) :: error + bytes \<times> string"
    have "ProcessImage_trace env cd w inp options = Some (?res, [] @ [img])"
      using eq Inl by simp
    then show "\<exists>res trace. ProcessImage_trace env cd w inp options = Some (res, trace @ [img])
       \<and> length trace \<le> 11
       \<and> (\<forall>i \<in> set trace. \<exists>t. t \<le> 1 \<and> i = candidate cd img t)
       \<and> (\<forall>r. res = Inr r \<longrightarrow>
             encodeImageWithCompression cd (hd (trace @ [img])) opts = Inr r)
       \<and> ((\<exists>r. encodeImageWithCompression cd img opts = Inr r)
           \<and> (\<forall>t. \<exists>r. encodeImageWithCompression cd (candidate cd img t) opts = Inr r
                   \<and> MaxSizeBytes opts < int (length (fst r))) \<longrightarrow>
            (\<exists>r. res = Inr r))"
      using Inl by (intro exI[of _ ?res] exI[of _ "[]"]) simp
  next
    case (Inr r)
    show "\<exists>res trace. ProcessImage_trace env cd w inp options = Some (res, trace @ [img])
       \<and> length trace \<le> 11
       \<and> (\<forall>i \<in> set trace. \<exists>t. t \<le> 1 \<and> i = candidate cd img t)
       \<and> (\<forall>r. res = Inr r \<longrightarrow>
             encodeImageWithCompression cd (hd (trace @ [img])) opts = Inr r)
       \<and> ((\<exists>r. encodeImageWithCompression cd img opts = Inr r)
           \<and> (\<forall>t. \<exists>r. encodeImageWithCompression cd (candidate cd img t) opts = Inr r
                   \<and> MaxSizeBytes opts < int (length (fst r))) \<longrightarrow>
            (\<exists>r. res = Inr r))"
    proof (cases "int (length (fst r)) \<le> MaxSizeBytes opts")
      case True
      have "ProcessImage_trace env cd w inp options = Some (Inr r, [] @ [img])"
        using eq Inr True by simp
      then show ?thesis using Inr by (intro exI[of _ "Inr r"] exI[of _ "[]"]) simp
    next
      case False
      have eq': "ProcessImage_trace env cd w inp options = resize_loop cd img opts s 1 r [img]"
        using eq Inr False by simp
      have "\<exists>res trace. resize_loop cd img opts s 1 r [img] = Some (res, trace @ [img])
          \<and> length trace \<le> 11
          \<and> (\<forall>i \<in> set trace. \<exists>t. t \<le> 1 \<and> i = candidate cd img t)
          \<and> ([img] \<noteq> [] \<and> encodeImageWithCompression cd (hd [img]) opts = Inr r \<longrightarrow>
            (\<forall>r'. res = Inr r' \<longrightarrow>
               encodeImageWithCompression cd (hd (trace @ [img])) opts = Inr r'))
          \<and> ((\<forall>t. \<exists>r. encodeImageWithCompression cd (candidate cd img t) opts = Inr r
                   \<and> MaxSizeBytes opts < int (length (fst r))) \<longrightarrow> (\<exists>r. res = Inr r))"
        using resize_loop_bounded[OF s, where j = 11 and c = 1 and cd = cd and img = img
            and options = opts and lastR = r and enc = "[img]"]
        by simp
      then obtain res trace where
        l: "resize_loop cd img opts s 1 r [img] = Some (res, trace @ [img])"
          "length trace \<le> 11"
          "\<forall>i \<in> set trace. \<exists>t. t \<le> 1 \<and> i = candidate cd img t"
          "[img] \<noteq> [] \<and> encodeImageWithCompression cd (hd [img]) opts = Inr r \<longrightarrow>
            (\<forall>r'. res = Inr r' \<longrightarrow>
               encodeImageWithCompression cd (hd (trace @ [img])) opts = Inr r')"
          "(\<forall>t. \<exists>r. encodeImageWithCompression cd (candidate cd img t) opts = Inr r
                   \<and> MaxSizeBytes opts < int (length (fst r))) \<longrightarrow> (\<exists>r. res = Inr r)"
        by blast
      from l(4) Inr have 4: "\<forall>r'. res = Inr r' \<longrightarrow>
               encodeImageWithCompression cd (hd (trace @ [img])) opts = Inr r'"
        by simp
      from eq' l(1) l(2) l(3) 4 l(5) show ?thesis
        by (intro exI[of _ res] exI[of _ trace]) simp
    qed
  qed
qed


text \<open>
  C3. \<open>ProcessImage\<close> never upscales. For a decoded raster that a machine can hold
  (no negative dimension, fewer than \<open>2^52\<close> pixels), \<open>ProcessImage\<close> returns, and every
  raster it hands to the encoder is at most as wide and at most as high as the
  original; the target factor is at most 1 in every round. When bytes are returned,
  they are the encoding of the raster encoded last, which is within these bounds.
\<close>

theorem ProcessImage_never_upscales:
  assumes "decodeImage env cd w inp = Inr (img, hint)"
      and "0 \<le> Dx img" and "0 \<le> Dy img" and "Dx img * Dy img < 2 ^ 52"
  shows "\<exists>res trace. ProcessImage_trace env cd w inp options = Some (res, trace)
       \<and> (\<forall>i \<in> set trace. Dx i \<le> Dx img \<and> Dy i \<le> Dy img)
       \<and> (\<forall>r. res = Inr r \<longrightarrow> trace \<noteq> []
             \<and> encodeImageWithCompression cd (hd trace) (ProcessImage_defaults env options) = Inr r
             \<and> Dx (hd trace) \<le> Dx img \<and> Dy (hd trace) \<le> Dy img)"
proof -
  from ProcessImage_trace_run[OF assms(1), of options] obtain res trace where
    r: "ProcessImage_trace env cd w inp options = Some (res, trace @ [img])"
      "\<forall>i \<in> set trace. \<exists>t. t \<le> 1 \<and> i = candidate cd img t"
      "\<forall>r. res = Inr r \<longrightarrow>
         encodeImageWithCompression cd (hd (trace @ [img])) (ProcessImage_defaults env options)
           = Inr r"
    by blast
  have d: "\<forall>i \<in> set (trace @ [img]). Dx i \<le> Dx img \<and> Dy i \<le> Dy img"
    using r(2) candidate_dims[OF assms(2,3,4)] by auto
  have "hd (trace @ [img]) \<in> set (trace @ [img])" by (rule hd_in_set) simp
  with d have "Dx (hd (trace @ [img])) \<le> Dx img \<and> Dy (hd (trace @ [img])) \<le> Dy img" by blast
  with r(1) r(3) d show ?thesis
    by (intro exI[of _ res] exI[of _ "trace @ [img]"]) simp
qed

theorem ProcessImage_never_upscales_witness:
  "decodeImage sample_env sample_codecs sample_world (Buffer ''small'')
     = Inr (\<lparr> Dx = 5, Dy = 5, Pix = ''q'' \<rparr>, ''unknown'')
   \<and> (\<exists>res trace. ProcessImage_trace sample_env sample_codecs sample_world (Buffer ''small'')
          (DefaultProcessImageOptions\<lparr> MaxSizeBytes := 1 \<rparr>) = Some (res, trace)
        \<and> (\<forall>i \<in> set trace. Dx i \<le> 5 \<and> Dy i \<le> 5))"
proof -
  have d: "decodeImage sample_env sample_codecs sample_world (Buffer ''small'')
     = Inr (\<lparr> Dx = 5, Dy = 5, Pix = ''q'' \<rparr>, ''unknown'')"
    by code_simp
  have a: "0 \<le> Dx \<lparr> Dx = 5, Dy = 5, Pix = ''q'' \<rparr>" "0 \<le> Dy \<lparr> Dx = 5, Dy = 5, Pix = ''q'' \<rparr>"
      "Dx \<lparr> Dx = 5, Dy = 5, Pix = ''q'' \<rparr> * Dy \<lparr> Dx = 5, Dy = 5, Pix = ''q'' \<rparr> < 2 ^ 52"
    by simp_all
  from ProcessImage_never_upscales[OF d a, of "DefaultProcessImageOptions\<lparr> MaxSizeBytes := 1 \<rparr>"]
  have "\<exists>res trace. ProcessImage_trace sample_env sample_codecs sample_world (Buffer ''small'')
          (DefaultProcessImageOptions\<lparr> MaxSizeBytes := 1 \<rparr>) = Some (res, trace)
        \<and> (\<forall>i \<in> set trace. Dx i \<le> 5 \<and> Dy i \<le> 5)"
    by simp blast
  with d show ?thesis by simp
qed


text \<open>
  The loop always ends: \<open>ProcessImage\<close> returns for every input, after at most
  twelve encodes (the first one and at most eleven rounds of the loop, since the
  running factor shrinks to at most 0.81 of itself in each round and the loop stops
  below 0.1).
\<close>

lemma ProcessImage_trace_returns:
  "\<exists>res trace. ProcessImage_trace env cd w inp options = Some (res, trace) \<and> length trace \<le> 12"
proof (cases "decodeImage env cd w inp")
  case (Inl err)
  then show ?thesis by (simp add: ProcessImage_trace_def Let_def)
next
  case (Inr a)
  obtain img' hint' where "a = (img', hint')" by (cases a)
  with Inr have "decodeImage env cd w inp = Inr (img', hint')" by simp
  from ProcessImage_trace_run[OF this, of options] obtain res trace where
    "ProcessImage_trace env cd w inp options = Some (res, trace @ [img'])" "length trace \<le> 11"
    by blast
  then show ?thesis by (intro exI[of _ res] exI[of _ "trace @ [img']"]) simp
qed

text \<open>
  C4. When no scale down to the floor of 0.1 meets the budget, \<open>ProcessImage\<close> is to
  return the result computed last and no error (the comment after the loop says: if
  it is still too large, use the last result). It does not for a small raster. A
  raster of 5 by 5 pixels with the default output format PNG and a budget of one byte
  decodes, and its encoding is over the budget. The rounds of the loop shrink it to
  5, 4, 3, 2, 2, 1, 1 and 1 pixels a side, each encoding over the budget, and then to
  0 by 0 pixels while the running factor is still above the floor: \<open>imaging.Resize\<close>
  returns the empty image, the PNG encoder refuses it, and \<open>ProcessImage\<close> returns
  the error \<open>failed to encode scaled image\<close> and no bytes.
\<close>

theorem ProcessImage_floor_failure:
  "decodeImage sample_env sample_codecs sample_world (Buffer ''small'')
     = Inr (\<lparr> Dx = 5, Dy = 5, Pix = ''q'' \<rparr>, ''unknown'')
   \<and> encodeImageWithCompression sample_codecs \<lparr> Dx = 5, Dy = 5, Pix = ''q'' \<rparr>
        (ProcessImage_defaults sample_env (DefaultProcessImageOptions\<lparr> MaxSizeBytes := 1 \<rparr>))
       = Inr (''pp'', ''.png'')
   \<and> ProcessImage_trace sample_env sample_codecs sample_world (Buffer ''small'')
        (DefaultProcessImageOptions\<lparr> MaxSizeBytes := 1 \<rparr>)
       = Some (Inl (Wrapf ''failed to encode scaled image: %w'' [] (CodecError ''png'')),
           [\<lparr> Dx = 0, Dy = 0, Pix = [] \<rparr>, \<lparr> Dx = 1, Dy = 1, Pix = ''r'' \<rparr>,
            \<lparr> Dx = 1, Dy = 1, Pix = ''r'' \<rparr>, \<lparr> Dx = 1, Dy = 1, Pix = ''r'' \<rparr>,
            \<lparr> Dx = 2, Dy = 2, Pix = ''r'' \<rparr>, \<lparr> Dx = 2, Dy = 2, Pix = ''r'' \<rparr>,
            \<lparr> Dx = 3, Dy = 3, Pix = ''r'' \<rparr>, \<lparr> Dx = 4, Dy = 4, Pix = ''r'' \<rparr>,
            \<lparr> Dx = 5, Dy = 5, Pix = ''q'' \<rparr>, \<lparr> Dx = 5, Dy = 5, Pix = ''q'' \<rparr>])
   \<and> ProcessImage sample_env sample_codecs sample_world (Buffer ''small'')
        (DefaultProcessImageOptions\<lparr> MaxSizeBytes := 1 \<rparr>)
       = Some (Inl (Wrapf ''failed to encode scaled image: %w'' [] (CodecError ''png'')))
   \<and> png_Encode sample_codecs \<lparr> Dx = 0, Dy = 0, Pix = [] \<rparr> = None
   \<and> png_Encode sample_codecs \<lparr> Dx = 1, Dy = 1, Pix = ''r'' \<rparr> = Some ''pp''"
proof -
  have d: "decodeImage sample_env sample_codecs sample_world (Buffer ''small'')
     = Inr (\<lparr> Dx = 5, Dy = 5, Pix = ''q'' \<rparr>, ''unknown'')"
    by code_simp
  have e: "encodeImageWithCompression sample_codecs \<lparr> Dx = 5, Dy = 5, Pix = ''q'' \<rparr>
        (ProcessImage_defaults sample_env (DefaultProcessImageOptions\<lparr> MaxSizeBytes := 1 \<rparr>))
       = Inr (''pp'', ''.png'')"
    by code_simp
  have t: "ProcessImage_trace sample_env sample_codecs sample_world (Buffer ''small'')
        (DefaultProcessImageOptions\<lparr> MaxSizeBytes := 1 \<rparr>)
       = Some (Inl (Wrapf ''failed to encode scaled image: %w'' [] (CodecError ''png'')),
           [\<lparr> Dx = 0, Dy = 0, Pix = [] \<rparr>, \<lparr> Dx = 1, Dy = 1, Pix = ''r'' \<rparr>,
            \<lparr> Dx = 1, Dy = 1, Pix = ''r'' \<rparr>, \<lparr> Dx = 1, Dy = 1, Pix = ''r'' \<rparr>,
            \<lparr> Dx = 2, Dy = 2, Pix = ''r'' \<rparr>, \<lparr> Dx = 2, Dy = 2, Pix = ''r'' \<rparr>,
            \<lparr> Dx = 3, Dy = 3, Pix = ''r'' \<rparr>, \<lparr> Dx = 4, Dy = 4, Pix = ''r'' \<rparr>,
            \<lparr> Dx = 5, Dy = 5, Pix = ''q'' \<rparr>, \<lparr> Dx = 5, Dy = 5, Pix = ''q'' \<rparr>])"
    by code_simp
  have p: "ProcessImage sample_env sample_codecs sample_world (Buffer ''small'')
        (DefaultProcessImageOptions\<lparr> MaxSizeBytes := 1 \<rparr>)
       = Some (Inl (Wrapf ''failed to encode scaled image: %w'' [] (CodecError ''png'')))"
    unfolding ProcessImage_def t by simp
  have z: "png_Encode sample_codecs \<lparr> Dx = 0, Dy = 0, Pix = [] \<rparr> = None"
    by (simp add: png_Encode_def)
  have o: "png_Encode sample_codecs \<lparr> Dx = 1, Dy = 1, Pix = ''r'' \<rparr> = Some ''pp''"
    by code_simp
  from d e t p z o show ?thesis by simp
qed

section \<open>RAW conversion: which files and which options are accepted\<close>

lemma validateFileExtension_iff:
  "validateFileExtension p = None \<longleftrightarrow>
     ToLower (Ext p) \<in> {''.png'', ''.jpg'', ''.jpeg'', ''.webp'', ''.tiff'', ''.bmp'',
                        ''.arw'', ''.srf'', ''.sr2''}"
proof -
  have s: "SplitByte AllowedImageExts CHR '','' =
     [''.png'', ''.jpg'', ''.jpeg'', ''.webp'', ''.tiff'', ''.bmp'', ''.arw'', ''.srf'', ''.sr2'']"
    by code_simp
  have m: "ext_in e xs \<longleftrightarrow> e \<in> set xs" for e xs
    by (induction xs) auto
  show ?thesis
    unfolding validateFileExtension_def Let_def s m by auto
qed

text \<open>
  C10. \<open>ProcessARWToPNG\<close> checks the extension of its input against the general list of
  nine image extensions only: \<open>photo.png\<close> passes that check, and the call fails with
  the extension error exactly when the path is valid and the lower-case extension of
  the cleaned path is outside the nine. Only \<open>ValidateARWFile\<close> asks for \<open>.arw\<close>,
  \<open>.srf\<close> or \<open>.sr2\<close>; \<open>ProcessARWToPNG\<close> does not apply that check: in the sample
  environment it converts \<open>photo.png\<close>, starting \<open>darktable-cli\<close> on it, while
  \<open>ValidateARWFile\<close> rejects the same file for its extension.
\<close>

theorem ProcessARWToPNG_extension_check:
  "validateFileExtension ''photo.png'' = None
   \<and> ((\<exists>e. fst (ProcessARWToPNG env p options w)
              = Inl (SecurityError ''extension_validation'' ''invalid file extension for ARW'' e))
        \<longleftrightarrow> (\<exists>c. validateFilePath p (DefaultSecurityConfig env) = Inr c
                 \<and> ToLower (Ext c) \<notin> {''.png'', ''.jpg'', ''.jpeg'', ''.webp'', ''.tiff'', ''.bmp'',
                                        ''.arw'', ''.srf'', ''.sr2''}))
   \<and> (ValidateARWFile env w p = None \<longrightarrow>
        (\<exists>c. validateFilePath p (DefaultSecurityConfig env) = Inr c
             \<and> extractExt c \<in> {Some ''.arw'', Some ''.srf'', Some ''.sr2''}))
   \<and> ValidateARWFile sample_env sample_world ''photo.png''
        = Some (Errorf ''unsupported file extension: %s (expected .arw, .srf, or .sr2)''
                  [S ''.png''])
   \<and> fst (ProcessARWToPNG sample_env ''photo.png''
             (DefaultARWProcessOptions\<lparr> TempDir_arw := ''tmp'' \<rparr>) sample_world) = Inr ''PNGDATA''
   \<and> spawned (snd (ProcessARWToPNG sample_env ''photo.png''
             (DefaultARWProcessOptions\<lparr> TempDir_arw := ''tmp'' \<rparr>) sample_world))
        = [(''darktable-cli'',
            [''photo.png'', ''tmp/arw_output_123456.png'',
             ''--core'', ''--conf'', ''plugins/imageio/format/png/bpp=16'',
             ''--core'', ''--conf'', ''plugins/imageio/format/png/compression=6'',
             ''--core'', ''--conf'', ''plugins/lighttable/export/colorspace=2'',
             ''--core'', ''--conf'', ''plugins/lighttable/export/wb=camera'',
             ''--hq'', ''--upscale'', ''--conf'', ''plugins/lighttable/export/overwrite=true''],
            ''/tmp'')]"
proof -
  have 1: "validateFileExtension ''photo.png'' = None" by code_simp
  have vp: "validateFilePath p c1 = validateFilePath p c2" for c1 c2
    by (simp add: validateFilePath_def)
  have 2: "(\<exists>e. fst (ProcessARWToPNG env p options w)
              = Inl (SecurityError ''extension_validation'' ''invalid file extension for ARW'' e))
        \<longleftrightarrow> (\<exists>c. validateFilePath p (DefaultSecurityConfig env) = Inr c
                 \<and> ToLower (Ext c) \<notin> {''.png'', ''.jpg'', ''.jpeg'', ''.webp'', ''.tiff'', ''.bmp'',
                                        ''.arw'', ''.srf'', ''.sr2''})"
    unfolding validateFileExtension_iff[symmetric]
    by (auto simp: ProcessARWToPNG_def Let_def NewSecurityError_def
          vp[of "DefaultSecurityConfig env\<lparr>AllowedTempDir := _\<rparr>" "DefaultSecurityConfig env"]
        split: sum.splits option.splits prod.splits if_splits)
  have 3: "ValidateARWFile env w p = None \<longrightarrow>
        (\<exists>c. validateFilePath p (DefaultSecurityConfig env) = Inr c
             \<and> extractExt c \<in> {Some ''.arw'', Some ''.srf'', Some ''.sr2''})"
    by (auto simp: ValidateARWFile_def Let_def
        split: sum.splits option.splits if_splits os_error.splits)
  have 4: "ValidateARWFile sample_env sample_world ''photo.png''
        = Some (Errorf ''unsupported file extension: %s (expected .arw, .srf, or .sr2)''
                  [S ''.png''])"
    by code_simp
  have 5: "fst (ProcessARWToPNG sample_env ''photo.png''
             (DefaultARWProcessOptions\<lparr> TempDir_arw := ''tmp'' \<rparr>) sample_world) = Inr ''PNGDATA''"
    by code_simp
  have 6: "spawned (snd (ProcessARWToPNG sample_env ''photo.png''
             (DefaultARWProcessOptions\<lparr> TempDir_arw := ''tmp'' \<rparr>) sample_world))
        = [(''darktable-cli'',
            [''photo.png'', ''tmp/arw_output_123456.png'',
             ''--core'', ''--conf'', ''plugins/imageio/format/png/bpp=16'',
             ''--core'', ''--conf'', ''plugins/imageio/format/png/compression=6'',
             ''--core'', ''--conf'', ''plugins/lighttable/export/colorspace=2'',
             ''--core'', ''--conf'', ''plugins/lighttable/export/wb=camera'',
             ''--hq'', ''--upscale'', ''--conf'', ''plugins/lighttable/export/overwrite=true''],
            ''/tmp'')]"
    by code_simp
  from 1 2 3 4 5 6 show ?thesis by blast
qed

theorem ProcessARWToPNG_extension_check_witness:
  "ValidateARWFile sample_env sample_world ''photo.arw'' = None
   \<and> validateFilePath ''photo.arw'' (DefaultSecurityConfig sample_env) = Inr ''photo.arw''
   \<and> extractExt ''photo.arw'' = Some ''.arw''
   \<and> validateFilePath ''photo.gif'' (DefaultSecurityConfig sample_env) = Inr ''photo.gif''
   \<and> fst (ProcessARWToPNG sample_env ''photo.gif'' DefaultARWProcessOptions sample_world)
       = Inl (SecurityError ''extension_validation'' ''invalid file extension for ARW''
               (Some (Errorf ''file extension not allowed: %s'' [S ''.gif''])))"
proof -
  have a: "ValidateARWFile sample_env sample_world ''photo.arw'' = None" by code_simp
  have b: "validateFilePath ''photo.arw'' (DefaultSecurityConfig sample_env) = Inr ''photo.arw''"
    by code_simp
  have c: "validateFilePath ''photo.gif'' (DefaultSecurityConfig sample_env) = Inr ''photo.gif''"
    by code_simp
  have d: "fst (ProcessARWToPNG sample_env ''photo.gif'' DefaultARWProcessOptions sample_world)
       = Inl (SecurityError ''extension_validation'' ''invalid file extension for ARW''
               (Some (Errorf ''file extension not allowed: %s'' [S ''.gif''])))"
    by code_simp
  have e: "extractExt ''photo.arw'' = Some ''.arw''" by code_simp
  show ?thesis
    using ProcessARWToPNG_extension_check[of sample_env "''photo.arw''" DefaultARWProcessOptions
        sample_world]
      ProcessARWToPNG_extension_check[of sample_env "''photo.gif''" DefaultARWProcessOptions
        sample_world]
      a b c d e
    by simp
qed

lemma colorSpaceMap_None:
  "colorSpaceMap cs = None \<longleftrightarrow> cs \<notin> {''sRGB'', ''AdobeRGB'', ''ProPhoto''}"
  by (simp add: colorSpaceMap_def)

lemma wbMap_None:
  "wbMap wb = None \<longleftrightarrow> wb \<notin> {''camera'', ''auto'', ''manual''}"
  by (simp add: wbMap_def)

lemma buildDarktableArgs_invalid:
  fixes options :: ARWProcessOptions
  defines "err \<equiv>
     (if Bitness options \<noteq> 8 \<and> Bitness options \<noteq> 16
        then InputValidationError ''bitness'' (Itoa (Bitness options)) ''must be 8 or 16''
      else if Compression options < 0 \<or> Compression options > 9
        then InputValidationError ''compression'' (Itoa (Compression options))
               ''must be between 0 and 9''
      else if ColorSpace options \<notin> {''sRGB'', ''AdobeRGB'', ''ProPhoto''}
        then InputValidationError ''colorspace'' (ColorSpace options)
               ''must be sRGB, AdobeRGB, or ProPhoto''
      else InputValidationError ''whitebalance'' (WhiteBalance options)
               ''must be camera, auto, or manual'')"
  assumes inv: "(Bitness options \<noteq> 8 \<and> Bitness options \<noteq> 16)
           \<or> Compression options < 0 \<or> Compression options > 9
           \<or> ColorSpace options \<notin> {''sRGB'', ''AdobeRGB'', ''ProPhoto''}
           \<or> WhiteBalance options \<notin> {''camera'', ''auto'', ''manual''}"
  shows "buildDarktableArgs env i out options =
      (case validateFilePath i (DefaultSecurityConfig env) of
         Inl err \<Rightarrow> Inl (SecurityError ''path_validation'' ''invalid input path'' (Some err))
       | Inr _ \<Rightarrow>
      (case validateFilePath out (DefaultSecurityConfig env) of
         Inl err \<Rightarrow> Inl (SecurityError ''path_validation'' ''invalid output path'' (Some err))
       | Inr _ \<Rightarrow> Inl (err)))"
proof -
  let ?B = "Bitness options \<noteq> 8 \<and> Bitness options \<noteq> 16"
  let ?C = "Compression options < 0 \<or> Compression options > 9"
  let ?S = "ColorSpace options \<notin> {''sRGB'', ''AdobeRGB'', ''ProPhoto''}"
  let ?W = "WhiteBalance options \<notin> {''camera'', ''auto'', ''manual''}"
  consider (bit) ?B | (comp) "\<not> ?B" ?C | (cs) "\<not> ?B" "\<not> ?C" ?S
    | (wb) "\<not> ?B" "\<not> ?C" "\<not> ?S" ?W
    using inv by blast
  then show ?thesis
  proof cases
    case bit
    then have t: "err
        = InputValidationError ''bitness'' (Itoa (Bitness options)) ''must be 8 or 16''"
      unfolding err_def by simp
    show ?thesis unfolding t
      using bit by (simp add: buildDarktableArgs_def NewSecurityError_def split: sum.splits)
  next
    case comp
    then have t: "err = InputValidationError ''compression'' (Itoa (Compression options))
                     ''must be between 0 and 9''"
      unfolding err_def by simp
    show ?thesis unfolding t
      using comp by (simp add: buildDarktableArgs_def NewSecurityError_def split: sum.splits)
  next
    case cs
    then have t: "err = InputValidationError ''colorspace'' (ColorSpace options)
                     ''must be sRGB, AdobeRGB, or ProPhoto''"
      unfolding err_def by simp
    from cs(3) have n: "colorSpaceMap (ColorSpace options) = None"
      by (simp add: colorSpaceMap_None)
    show ?thesis unfolding t
      using cs(1,2) n
      by (simp add: buildDarktableArgs_def NewSecurityError_def Let_def split: sum.splits)
  next
    case wb
    then have t: "err = InputValidationError ''whitebalance'' (WhiteBalance options)
                     ''must be camera, auto, or manual''"
      unfolding err_def by simp
    from wb(4) have n: "wbMap (WhiteBalance options) = None"
      by (simp add: wbMap_None)
    from wb(3) have "colorSpaceMap (ColorSpace options) \<noteq> None"
      by (simp add: colorSpaceMap_None)
    then obtain cid where s: "colorSpaceMap (ColorSpace options) = Some cid" by blast
    show ?thesis unfolding t
      using wb(1,2) n s
      by (simp add: buildDarktableArgs_def NewSecurityError_def Let_def split: sum.splits)
  qed
qed

lemma safeExecuteDarktableCommand_invalid:
  assumes inv: "(Bitness options \<noteq> 8 \<and> Bitness options \<noteq> 16)
           \<or> Compression options < 0 \<or> Compression options > 9
           \<or> ColorSpace options \<notin> {''sRGB'', ''AdobeRGB'', ''ProPhoto''}
           \<or> WhiteBalance options \<notin> {''camera'', ''auto'', ''manual''}"
  shows "\<exists>e. buildDarktableArgs env i out options = Inl e
           \<and> safeExecuteDarktableCommand env i out options w
               = (Some (Wrapf ''failed to build command args: %w'' [] e), w)"
proof -
  have "\<exists>e. buildDarktableArgs env i out options = Inl e"
    unfolding buildDarktableArgs_invalid[OF inv] by (simp split: sum.splits)
  then obtain e where "buildDarktableArgs env i out options = Inl e" ..
  then show ?thesis by (simp add: safeExecuteDarktableCommand_def)
qed

text \<open>
  Options that \<open>buildDarktableArgs\<close> refuses never start a process. When the bit
  depth is neither 8 nor 16, or the compression level is outside 0..9, or the colour
  space or the white balance is not one of the listed names, \<open>ProcessARWToPNG\<close>
  returns an error and the list of started processes is as before.
  \<open>buildDarktableArgs\<close> checks its two paths first and then the options in the order
  bit depth, compression, colour space, white balance; with two paths that
  \<open>validateFilePath\<close> accepts its error is the \<open>InputValidationError\<close> that names the
  first offending field, and that error, wrapped twice, is what \<open>ProcessARWToPNG\<close>
  returns when its own checks have passed and the temporary output path is one that
  \<open>validateFilePath\<close> accepts.
\<close>

lemma ProcessARWToPNG_invalid_options:
  fixes options :: ARWProcessOptions
  defines "err \<equiv>
     (if Bitness options \<noteq> 8 \<and> Bitness options \<noteq> 16
        then InputValidationError ''bitness'' (Itoa (Bitness options)) ''must be 8 or 16''
      else if Compression options < 0 \<or> Compression options > 9
        then InputValidationError ''compression'' (Itoa (Compression options))
               ''must be between 0 and 9''
      else if ColorSpace options \<notin> {''sRGB'', ''AdobeRGB'', ''ProPhoto''}
        then InputValidationError ''colorspace'' (ColorSpace options)
               ''must be sRGB, AdobeRGB, or ProPhoto''
      else InputValidationError ''whitebalance'' (WhiteBalance options)
               ''must be camera, auto, or manual'')"
  assumes inv: "(Bitness options \<noteq> 8 \<and> Bitness options \<noteq> 16)
           \<or> Compression options < 0 \<or> Compression options > 9
           \<or> ColorSpace options \<notin> {''sRGB'', ''AdobeRGB'', ''ProPhoto''}
           \<or> WhiteBalance options \<notin> {''camera'', ''auto'', ''manual''}"
  shows "(\<exists>e. fst (ProcessARWToPNG env p options w) = Inl e)
     \<and> spawned (snd (ProcessARWToPNG env p options w)) = spawned w
     \<and> (validateFilePath i (DefaultSecurityConfig env) = Inr i'
          \<and> validateFilePath out (DefaultSecurityConfig env) = Inr out'
         \<longrightarrow> buildDarktableArgs env i out options = Inl err)
     \<and> (validateFilePath p (DefaultSecurityConfig env) = Inr c
          \<and> validateFileExtension c = None
          \<and> validateFileSize w c MaxFileSize_const = None
          \<and> isDarktableAvailable env
          \<and> secureCreateTempFile env ''arw_output_*.png''
                ((DefaultSecurityConfig env)\<lparr> AllowedTempDir :=
                    (if TempDir_arw options = [] then os_TempDir env else TempDir_arw options) \<rparr>) w
              = (Inr t, w1)
          \<and> validateFilePath c (DefaultSecurityConfig env) = Inr c'
          \<and> validateFilePath t (DefaultSecurityConfig env) = Inr t'
         \<longrightarrow> fst (ProcessARWToPNG env p options w)
               = Inl (Wrapf ''darktable-cli execution failed: %w'' []
                       (Wrapf ''failed to build command args: %w'' [] err)))"
proof -
  let ?options = "if TempDir_arw options = []
                     then options\<lparr> TempDir_arw := os_TempDir env \<rparr> else options"
  have inv': "(Bitness ?options \<noteq> 8 \<and> Bitness ?options \<noteq> 16)
           \<or> Compression ?options < 0 \<or> Compression ?options > 9
           \<or> ColorSpace ?options \<notin> {''sRGB'', ''AdobeRGB'', ''ProPhoto''}
           \<or> WhiteBalance ?options \<notin> {''camera'', ''auto'', ''manual''}"
    using inv by auto
  have ex: "\<exists>e. safeExecuteDarktableCommand env a b ?options w' = (Some e, w')" for a b w'
    using safeExecuteDarktableCommand_invalid[OF inv', of env a b w'] by blast
  have err': "(if Bitness ?options \<noteq> 8 \<and> Bitness ?options \<noteq> 16
        then InputValidationError ''bitness'' (Itoa (Bitness ?options)) ''must be 8 or 16''
      else if Compression ?options < 0 \<or> Compression ?options > 9
        then InputValidationError ''compression'' (Itoa (Compression ?options))
               ''must be between 0 and 9''
      else if ColorSpace ?options \<notin> {''sRGB'', ''AdobeRGB'', ''ProPhoto''}
        then InputValidationError ''colorspace'' (ColorSpace ?options)
               ''must be sRGB, AdobeRGB, or ProPhoto''
      else InputValidationError ''whitebalance'' (WhiteBalance ?options)
               ''must be camera, auto, or manual'') = err"
    unfolding err_def by simp
  have 3: "validateFilePath i (DefaultSecurityConfig env) = Inr i'
          \<and> validateFilePath out (DefaultSecurityConfig env) = Inr out'
         \<longrightarrow> buildDarktableArgs env i out options = Inl err"
    unfolding buildDarktableArgs_invalid[OF inv] err_def by simp
  have bd: "validateFilePath a (DefaultSecurityConfig env) = Inr a'
          \<Longrightarrow> validateFilePath b (DefaultSecurityConfig env) = Inr b'
          \<Longrightarrow> buildDarktableArgs env a b ?options = Inl err" for a a' b b'
    unfolding buildDarktableArgs_invalid[OF inv'] err' by simp
  have 12: "((\<exists>e. fst (ProcessARWToPNG env p options w) = Inl e)
     \<and> spawned (snd (ProcessARWToPNG env p options w)) = spawned w)
     \<and> (validateFilePath p (DefaultSecurityConfig env) = Inr c
          \<and> validateFileExtension c = None
          \<and> validateFileSize w c MaxFileSize_const = None
          \<and> isDarktableAvailable env
          \<and> secureCreateTempFile env ''arw_output_*.png''
                ((DefaultSecurityConfig env)\<lparr> AllowedTempDir :=
                    (if TempDir_arw options = [] then os_TempDir env else TempDir_arw options) \<rparr>) w
              = (Inr t, w1)
          \<and> validateFilePath c (DefaultSecurityConfig env) = Inr c'
          \<and> validateFilePath t (DefaultSecurityConfig env) = Inr t'
         \<longrightarrow> fst (ProcessARWToPNG env p options w)
               = Inl (Wrapf ''darktable-cli execution failed: %w'' []
                       (Wrapf ''failed to build command args: %w'' [] err)))"
  proof -
    define opts where "opts = ?options"
    define config where
      "config = (DefaultSecurityConfig env)\<lparr> AllowedTempDir := TempDir_arw opts \<rparr>"
    have ex': "\<exists>e. safeExecuteDarktableCommand env a b opts w' = (Some e, w')" for a b w'
      unfolding opts_def by (rule ex)
    have eq: "ProcessARWToPNG env p options w =
      (case validateFilePath p config of
        Inl err \<Rightarrow>
          (Inl (NewSecurityError ''path_validation'' ''invalid ARW file path'' (Some err)), w)
      | Inr cleanPath \<Rightarrow>
     (case validateFileExtension cleanPath of
        Some err \<Rightarrow>
          (Inl (NewSecurityError ''extension_validation'' ''invalid file extension for ARW''
                  (Some err)), w)
      | None \<Rightarrow>
     (case validateFileSize w cleanPath MaxFileSize_const of
        Some err \<Rightarrow>
          (Inl (NewSecurityError ''size_validation'' ''ARW file too large'' (Some err)), w)
      | None \<Rightarrow>
        if Stat w cleanPath = Inl ErrNotExist
          then (Inl (Errorf ''ARW file does not exist: %s'' [S cleanPath]), w)
        else if \<not> isDarktableAvailable env
          then (Inl (Errorf ''darktable-cli is not available. Please install darktable-cli'' []), w)
        else
          (case secureCreateTempFile env ''arw_output_*.png'' config w of
             (Inl err, w1) \<Rightarrow>
               (Inl (Wrapf ''failed to create secure temp output file: %w'' [] err), w1)
           | (Inr tempOutputPath, w1) \<Rightarrow>
               (case safeExecuteDarktableCommand env cleanPath tempOutputPath opts w1 of
                  (Some err, w2) \<Rightarrow>
                    (Inl (Wrapf ''darktable-cli execution failed: %w'' [] err),
                     snd (secureCleanup env tempOutputPath (KeepTemp opts) w2))
                | (None, w2) \<Rightarrow>
                    (case Open w2 tempOutputPath of
                       Inl e \<Rightarrow>
                         (Inl (Wrapf ''failed to read output PNG file: %w'' [] (OsError e)),
                          snd (secureCleanup env tempOutputPath (KeepTemp opts) w2))
                     | Inr pngData \<Rightarrow>
                         if int (length pngData) > MaxFileSize_const
                           then (Inl (NewSecurityError ''size_validation''
                                        ''output PNG file too large'' None),
                                 snd (secureCleanup env tempOutputPath (KeepTemp opts) w2))
                         else (Inr pngData,
                               snd (secureCleanup env tempOutputPath (KeepTemp opts) w2))))))))"
      unfolding ProcessARWToPNG_def Let_def opts_def config_def by (rule refl)
    have cfg: "config = (DefaultSecurityConfig env)\<lparr> AllowedTempDir :=
                    (if TempDir_arw options = [] then os_TempDir env else TempDir_arw options) \<rparr>"
      unfolding config_def opts_def by simp
    have vpc: "validateFilePath q config = validateFilePath q (DefaultSecurityConfig env)" for q
      by (simp add: validateFilePath_def)
    have B: "fst (ProcessARWToPNG env p options w)
               = Inl (Wrapf ''darktable-cli execution failed: %w'' []
                       (Wrapf ''failed to build command args: %w'' [] err))"
      if h: "validateFilePath p (DefaultSecurityConfig env) = Inr c"
          "validateFileExtension c = None"
          "validateFileSize w c MaxFileSize_const = None"
          "isDarktableAvailable env"
          "secureCreateTempFile env ''arw_output_*.png'' config w = (Inr t, w1)"
          "validateFilePath c (DefaultSecurityConfig env) = Inr c'"
          "validateFilePath t (DefaultSecurityConfig env) = Inr t'"
    proof -
      have st: "Stat w c \<noteq> Inl ErrNotExist"
        using h(3) by (auto simp: validateFileSize_def split: sum.splits)
      have "buildDarktableArgs env c t opts = Inl err"
        unfolding opts_def using bd[OF h(6) h(7)] .
      then have "safeExecuteDarktableCommand env c t opts w1
          = (Some (Wrapf ''failed to build command args: %w'' [] err), w1)"
        by (simp add: safeExecuteDarktableCommand_def)
      with h st show ?thesis unfolding eq vpc by simp
    qed
    have A: "(\<exists>e. fst (ProcessARWToPNG env p options w) = Inl e)
     \<and> spawned (snd (ProcessARWToPNG env p options w)) = spawned w"
    proof (cases "validateFilePath p config")
      case (Inl err)
      then show ?thesis unfolding eq by simp
    next
      case (Inr cleanPath)
      note vp = this
      show ?thesis
      proof (cases "validateFileExtension cleanPath")
        case (Some err)
        with vp show ?thesis unfolding eq by simp
      next
        case None
        note ve = this
        show ?thesis
        proof (cases "validateFileSize w cleanPath MaxFileSize_const")
          case (Some err)
          with vp ve show ?thesis unfolding eq by simp
        next
          case None
          note vs = this
          show ?thesis
          proof (cases "Stat w cleanPath = Inl ErrNotExist \<or> \<not> isDarktableAvailable env")
            case True
            with vp ve vs show ?thesis unfolding eq by auto
          next
            case False
            then have st: "Stat w cleanPath \<noteq> Inl ErrNotExist" "isDarktableAvailable env"
              by simp_all
            obtain r w1 where
              c: "secureCreateTempFile env ''arw_output_*.png'' config w = (r, w1)"
              by (cases "secureCreateTempFile env ''arw_output_*.png'' config w")
            have sp: "spawned w1 = spawned w"
              using secureCreateTempFile_spawned[of env "''arw_output_*.png''" config w] c
              by simp
            show ?thesis
            proof (cases r)
              case (Inl e)
              with vp ve vs st c sp show ?thesis unfolding eq by simp
            next
              case (Inr t)
              from ex' obtain e where
                x: "safeExecuteDarktableCommand env cleanPath t opts w1 = (Some e, w1)"
                by blast
              from vp ve vs st c sp Inr x show ?thesis
                unfolding eq by (simp add: secureCleanup_spawned)
            qed
          qed
        qed
      qed
    qed
    from A B show ?thesis unfolding cfg by blast
  qed
  from 12 3 show ?thesis by blast
qed

lemma ProcessARWToPNG_invalid_options_relative_temp:
  "fst (ProcessARWToPNG sample_env ''photo.arw''
          (DefaultARWProcessOptions\<lparr> Bitness := 10, TempDir_arw := ''tmp'' \<rparr>) sample_world)
     = Inl (Wrapf ''darktable-cli execution failed: %w'' []
             (Wrapf ''failed to build command args: %w'' []
               (InputValidationError ''bitness'' ''10'' ''must be 8 or 16'')))
   \<and> spawned (snd (ProcessARWToPNG sample_env ''photo.arw''
          (DefaultARWProcessOptions\<lparr> Bitness := 10, TempDir_arw := ''tmp'' \<rparr>) sample_world)) = []
   \<and> buildDarktableArgs sample_env ''photo.arw'' ''out.png''
          (DefaultARWProcessOptions\<lparr> Bitness := 10, TempDir_arw := ''tmp'' \<rparr>)
       = Inl (InputValidationError ''bitness'' ''10'' ''must be 8 or 16'')"
proof -
  let ?o = "DefaultARWProcessOptions\<lparr> Bitness := 10, TempDir_arw := ''tmp'' \<rparr>"
  let ?cfg = "DefaultSecurityConfig sample_env"
  let ?c = "secureCreateTempFile sample_env ''arw_output_*.png''
      (?cfg\<lparr> AllowedTempDir := (if TempDir_arw ?o = [] then os_TempDir sample_env
                                    else TempDir_arw ?o) \<rparr>) sample_world"
  have inv: "(Bitness ?o \<noteq> 8 \<and> Bitness ?o \<noteq> 16)
           \<or> Compression ?o < 0 \<or> Compression ?o > 9
           \<or> ColorSpace ?o \<notin> {''sRGB'', ''AdobeRGB'', ''ProPhoto''}
           \<or> WhiteBalance ?o \<notin> {''camera'', ''auto'', ''manual''}"
    by (simp add: DefaultARWProcessOptions_def)
  have h1: "validateFilePath ''photo.arw'' ?cfg = Inr ''photo.arw''" by code_simp
  have h2: "validateFileExtension ''photo.arw'' = None" by code_simp
  have h3: "validateFileSize sample_world ''photo.arw'' MaxFileSize_const = None" by code_simp
  have h4: "isDarktableAvailable sample_env" by code_simp
  have "fst ?c = Inr ''tmp/arw_output_123456.png''" by code_simp
  then have h5: "?c = (Inr ''tmp/arw_output_123456.png'', snd ?c)"
    by (simp add: prod_eq_iff)
  have h6: "validateFilePath ''tmp/arw_output_123456.png'' ?cfg = Inr ''tmp/arw_output_123456.png''"
    by code_simp
  have h7: "validateFilePath ''out.png'' ?cfg = Inr ''out.png''" by code_simp
  have i: "Itoa 10 = ''10''" by code_simp
  have s: "spawned sample_world = []" by (simp add: sample_world_def)
  have b: "Bitness ?o = 10" by (simp add: DefaultARWProcessOptions_def)
  show ?thesis
    using ProcessARWToPNG_invalid_options[OF inv, where env = sample_env and p = "''photo.arw''"
        and w = sample_world and i = "''photo.arw''" and i' = "''photo.arw''"
        and out = "''out.png''" and out' = "''out.png''" and c = "''photo.arw''"
        and c' = "''photo.arw''" and t = "''tmp/arw_output_123456.png''"
        and t' = "''tmp/arw_output_123456.png''" and ?w1.0 = "snd ?c"]
      h1 h2 h3 h4 h5 h6 h7 i s b
    by simp
qed

text \<open>
  C6. A bit depth other than 8 or 16 is to give a validation error that names the
  field \<open>bitness\<close>, and no process is to be started. With the temporary directory
  left to its default, \<open>ProcessARWToPNG\<close> makes its temporary output file in the
  temporary directory of the operating system, whose name is absolute, and
  \<open>buildDarktableArgs\<close> then hands that name to \<open>validateFilePath\<close>, which refuses
  every absolute path, before it looks at the options. So for an existing file
  \<open>photo.arw\<close> and the default options with the bit depth set to 10, the error is
  the security error \<open>invalid output path\<close> and not the validation error on the bit
  depth; no process is started, and the temporary output file is removed again. The
  default options themselves, which are valid, fail in the same way. With a relative
  temporary directory the error is the validation error on the bit depth, wrapped
  twice.
\<close>

theorem ProcessARWToPNG_bitness_default_temp:
  "TempDir_arw (DefaultARWProcessOptions\<lparr> Bitness := 10 \<rparr>) = []
   \<and> os_TempDir sample_env = ''/tmp''
   \<and> fst (ProcessARWToPNG sample_env ''photo.arw''
          (DefaultARWProcessOptions\<lparr> Bitness := 10 \<rparr>) sample_world)
     = Inl (Wrapf ''darktable-cli execution failed: %w'' []
             (Wrapf ''failed to build command args: %w'' []
               (SecurityError ''path_validation'' ''invalid output path''
                 (Some (Errorf ''absolute paths not allowed: %s''
                          [S ''/tmp/arw_output_123456.png''])))))
   \<and> spawned (snd (ProcessARWToPNG sample_env ''photo.arw''
          (DefaultARWProcessOptions\<lparr> Bitness := 10 \<rparr>) sample_world)) = []
   \<and> files (snd (ProcessARWToPNG sample_env ''photo.arw''
          (DefaultARWProcessOptions\<lparr> Bitness := 10 \<rparr>) sample_world))
        ''/tmp/arw_output_123456.png'' = None
   \<and> validateFilePath ''/tmp/arw_output_123456.png'' (DefaultSecurityConfig sample_env)
     = Inl (Errorf ''absolute paths not allowed: %s'' [S ''/tmp/arw_output_123456.png''])
   \<and> fst (ProcessARWToPNG sample_env ''photo.arw'' DefaultARWProcessOptions sample_world)
     = Inl (Wrapf ''darktable-cli execution failed: %w'' []
             (Wrapf ''failed to build command args: %w'' []
               (SecurityError ''path_validation'' ''invalid output path''
                 (Some (Errorf ''absolute paths not allowed: %s''
                          [S ''/tmp/arw_output_123456.png''])))))
   \<and> fst (ProcessARWToPNG sample_env ''photo.arw''
          (DefaultARWProcessOptions\<lparr> Bitness := 10, TempDir_arw := ''tmp'' \<rparr>) sample_world)
     = Inl (Wrapf ''darktable-cli execution failed: %w'' []
             (Wrapf ''failed to build command args: %w'' []
               (InputValidationError ''bitness'' ''10'' ''must be 8 or 16'')))"
  by code_simp

end
